theory Spec2Isabelle
  imports Main
begin

section \<open>Errors and small vector types\<close>

text \<open>
  \<^verbatim>\<open>ASSERT(exp, info)\<close> of \<^verbatim>\<open>macros_utils.h\<close> throws \<^verbatim>\<open>std::runtime_error(info)\<close>
  when \<^verbatim>\<open>exp\<close> is false. \<^verbatim>\<open>std::map::at\<close> throws \<^verbatim>\<open>std::out_of_range\<close> on a
  missing key. Reading or writing an Eigen vector, a \<^verbatim>\<open>std::vector\<close> or a KDL joint
  array outside its size is not defined by the language (Eigen stops the process when its
  index assertion is compiled in); the model ends the call there with
  \<open>IndexOutOfBounds\<close>. Converting a \<^verbatim>\<open>double\<close> whose truncated value no \<^verbatim>\<open>int\<close>
  holds is not defined either; the model ends the call with \<open>NotRepresentable\<close>.
\<close>

datatype error = RuntimeError string | OutOfRange | IndexOutOfBounds | NotRepresentable

definition ASSERT :: "bool \<Rightarrow> string \<Rightarrow> error + unit" where
  "ASSERT exp info = (if \<not> exp then Inl (RuntimeError info) else Inr ())"

text \<open>\<^verbatim>\<open>std::to_string\<close> on an unsigned integer: its decimal digits.\<close>

function to_string :: "nat \<Rightarrow> string" where
  "to_string n =
     (if n < 10 then [''0123456789'' ! n]
      else to_string (n div 10) @ [''0123456789'' ! (n mod 10)])"
  by pat_completeness auto
termination
  by (relation "measure (\<lambda>n. n)") auto

declare to_string.simps [simp del]

text \<open>
  A pose is a \<^verbatim>\<open>Vector7\<close>: position \<open>x y z\<close>, then the quaternion \<open>w x y z\<close>.
  A \<^verbatim>\<open>Transform3\<close> holds a rotation and a translation; the rotation matrix of a
  quaternion is floating-point work of Eigen and stays symbolic here.
\<close>

datatype 'a vector7 = Vector7 'a 'a 'a 'a 'a 'a 'a

datatype 'a quaternion = Quaternion 'a 'a 'a 'a

record 'a transform3 =
  linear :: "'a quaternion"
  translation :: "'a \<times> 'a \<times> 'a"

section \<open>The collaborators of the articulated model\<close>

text \<open>
  \<^verbatim>\<open>PinocchioModelTpl\<close> and \<^verbatim>\<open>FCLModelTpl\<close> are implemented in files of their own
  that this development does not cover.
  The tables the articulated model reads from the kinematic model
  (\<^verbatim>\<open>getJointId\<close>, \<^verbatim>\<open>getJointDim\<close>, \<^verbatim>\<open>getChainJointIndex\<close>) are parameters:
  fields of the record that are never written, as is \<open>linkPoseAt\<close>, the pose of a link
  at a configuration. \<open>data_qpos\<close> is the configuration of the last forward kinematics
  and \<open>collision_link_pose\<close> the poses last pushed to the collision model;
  \<open>fk_count\<close> and \<open>update_count\<close> count the calls of the two collaborators.
\<close>

record 'a pinocchio_model =
  getJointId :: "nat \<Rightarrow> nat"
  getJointDim :: "nat \<Rightarrow> nat"
  getChainJointIndex :: "string \<Rightarrow> nat list"
  linkPoseAt :: "'a list \<Rightarrow> nat \<Rightarrow> 'a vector7"
  data_qpos :: "'a list"
  fk_count :: nat

record 'a fcl_model =
  collision_link_pose :: "'a transform3 list"
  update_count :: nat

text \<open>
  Modelled from the spec: \<^verbatim>\<open>computeForwardKinematics\<close> of the kinematics collaborator,
  "\<open>forward_kinematics(full_configuration) -> per-link poses\<close>". The poses are a function
  of the configuration (\<open>linkPoseAt\<close>); the call stores the configuration it was given
  and is counted.
\<close>

definition computeForwardKinematics :: "'a list \<Rightarrow> 'a pinocchio_model \<Rightarrow> 'a pinocchio_model" where
  "computeForwardKinematics qpos pm = pm\<lparr>data_qpos := qpos, fk_count := Suc (fk_count pm)\<rparr>"

text \<open>
  Modelled from the spec: \<^verbatim>\<open>getLinkPose\<close> of the kinematics collaborator, the pose of a
  link at the configuration of the last forward kinematics.
\<close>

definition getLinkPose :: "'a pinocchio_model \<Rightarrow> nat \<Rightarrow> 'a vector7" where
  "getLinkPose pm i = linkPoseAt pm (data_qpos pm) i"

text \<open>
  Modelled from the spec: \<^verbatim>\<open>updateCollisionObjects\<close>, which "pushes updated poses into
  the collision representation for this body" (and counts the call).
\<close>

definition updateCollisionObjects :: "'a transform3 list \<Rightarrow> 'a fcl_model \<Rightarrow> 'a fcl_model" where
  "updateCollisionObjects link_pose fm =
     fm\<lparr>collision_link_pose := link_pose, update_count := Suc (update_count fm)\<rparr>"

section \<open>ArticulatedModelTpl\<close>

record 'a articulated_model =
  pinocchio_model :: "'a pinocchio_model"
  fcl_model :: "'a fcl_model"
  user_link_names :: "string list"
  user_joint_names :: "string list"
  move_group_user_joints :: "nat list"
  move_group_end_effectors :: "string list"
  current_qpos :: "'a list"
  qpos_dim :: nat

text \<open>
  Indices, dimensions and lengths are natural numbers: they count entries of vectors held
  in memory and stay far inside the range of \<^verbatim>\<open>size_t\<close> and \<^verbatim>\<open>int\<close>.
\<close>

subsection \<open>setMoveGroup\<close>

text \<open>
  The loop over the end effectors inserts each chain's joint indices at the front of
  \<^verbatim>\<open>move_group_user_joints_\<close>.
\<close>

fun setMoveGroup_insert :: "'a pinocchio_model \<Rightarrow> string list \<Rightarrow> nat list \<Rightarrow> nat list" where
  "setMoveGroup_insert pm [] joints = joints"
| "setMoveGroup_insert pm (end_effector # rest) joints =
     (let joint_i = getChainJointIndex pm end_effector
      in setMoveGroup_insert pm rest (joint_i @ joints))"

text \<open>The loop \<^verbatim>\<open>for (auto i : move_group_user_joints_) qpos_dim_ += getJointDim(i)\<close>.\<close>

fun setMoveGroup_dim :: "'a pinocchio_model \<Rightarrow> nat list \<Rightarrow> nat \<Rightarrow> nat" where
  "setMoveGroup_dim pm [] d = d"
| "setMoveGroup_dim pm (i # rest) d = setMoveGroup_dim pm rest (d + getJointDim pm i)"

text \<open>
  \<^verbatim>\<open>std::sort\<close> is \<open>sort\<close>; \<^verbatim>\<open>std::unique\<close> followed by \<^verbatim>\<open>erase\<close> removes
  adjacent duplicates, which is \<open>remdups_adj\<close>.
\<close>

definition setMoveGroup :: "string list \<Rightarrow> 'a articulated_model \<Rightarrow> 'a articulated_model" where
  "setMoveGroup end_effectors m =
     (let joints = setMoveGroup_insert (pinocchio_model m) end_effectors [];
          joints = remdups_adj (sort joints)
      in m\<lparr>move_group_end_effectors := end_effectors,
           move_group_user_joints := joints,
           qpos_dim := setMoveGroup_dim (pinocchio_model m) joints 0\<rparr>)"

definition setMoveGroup1 :: "string \<Rightarrow> 'a articulated_model \<Rightarrow> 'a articulated_model" where
  "setMoveGroup1 end_effector m = setMoveGroup [end_effector] m"

subsection \<open>setQpos\<close>

text \<open>
  The inner loop \<^verbatim>\<open>for (size_t j = 0; j < dim_i; j++) current_qpos_[start_idx + j] =
  qpos[len++]\<close>. It carries the configuration being written and the read position
  \<^verbatim>\<open>len\<close>; an index outside either vector ends the call.
\<close>

function setQpos_joint ::
  "'a list \<Rightarrow> nat \<Rightarrow> nat \<Rightarrow> nat \<Rightarrow> 'a list \<Rightarrow> nat \<Rightarrow> (error + unit) \<times> 'a list \<times> nat" where
  "setQpos_joint qpos start_idx dim_i j cur len =
     (if j < dim_i then
        (if len < length qpos \<and> start_idx + j < length cur
         then setQpos_joint qpos start_idx dim_i (Suc j) (cur[start_idx + j := qpos ! len]) (Suc len)
         else (Inl IndexOutOfBounds, cur, len))
      else (Inr (), cur, len))"
  by pat_completeness auto
termination
  by (relation "measure (\<lambda>(qpos, start_idx, dim_i, j, cur, len). dim_i - j)") auto

declare setQpos_joint.simps [simp del]

text \<open>The outer loop \<^verbatim>\<open>for (auto i : move_group_user_joints_)\<close>.\<close>

fun setQpos_joints ::
  "'a pinocchio_model \<Rightarrow> 'a list \<Rightarrow> nat list \<Rightarrow> 'a list \<Rightarrow> nat \<Rightarrow> (error + unit) \<times> 'a list \<times> nat" where
  "setQpos_joints pm qpos [] cur len = (Inr (), cur, len)"
| "setQpos_joints pm qpos (i # rest) cur len =
     (let start_idx = getJointId pm i; dim_i = getJointDim pm i
      in case setQpos_joint qpos start_idx dim_i 0 cur len of
           (Inl e, cur', len') \<Rightarrow> (Inl e, cur', len')
         | (Inr u, cur', len') \<Rightarrow> setQpos_joints pm qpos rest cur' len')"

text \<open>
  The loop over the links that turns each \<^verbatim>\<open>getLinkPose(i)\<close> into a
  \<^verbatim>\<open>Transform3\<close> and appends it to \<^verbatim>\<open>link_pose\<close>.
\<close>

definition pose_to_transform :: "'a vector7 \<Rightarrow> 'a transform3" where
  "pose_to_transform pose_i =
     (case pose_i of Vector7 p0 p1 p2 p3 p4 p5 p6 \<Rightarrow>
        \<lparr>linear = Quaternion p3 p4 p5 p6, translation = (p0, p1, p2)\<rparr>)"

function setQpos_link_pose ::
  "'a pinocchio_model \<Rightarrow> nat \<Rightarrow> nat \<Rightarrow> 'a transform3 list \<Rightarrow> 'a transform3 list" where
  "setQpos_link_pose pm n i link_pose =
     (if i < n
      then setQpos_link_pose pm n (Suc i) (link_pose @ [pose_to_transform (getLinkPose pm i)])
      else link_pose)"
  by pat_completeness auto
termination
  by (relation "measure (\<lambda>(pm, n, i, link_pose). n - i)") auto

declare setQpos_link_pose.simps [simp del]

text \<open>
  The part of \<^verbatim>\<open>setQpos\<close> after the configuration is written: forward kinematics on
  \<^verbatim>\<open>current_qpos_\<close>, then the link poses are pushed to the collision model.
\<close>

definition setQpos_update :: "'a articulated_model \<Rightarrow> 'a articulated_model" where
  "setQpos_update m =
     (let pm = computeForwardKinematics (current_qpos m) (pinocchio_model m);
          link_pose = setQpos_link_pose pm (length (user_link_names m)) 0 [];
          fm = updateCollisionObjects link_pose (fcl_model m)
      in m\<lparr>pinocchio_model := pm, fcl_model := fm\<rparr>)"

definition setQpos_message :: "nat \<Rightarrow> nat \<Rightarrow> string" where
  "setQpos_message dim len =
     ''Length is not correct, Dim of Q: '' @ to_string dim @ '' ,Len of qpos: '' @ to_string len"

text \<open>
  \<^verbatim>\<open>setQpos(qpos, full)\<close>. The result is the way the call ends, \<open>Inr ()\<close> for a normal
  return and \<open>Inl e\<close> for the exception or the stop, together with the object as the call
  leaves it.
\<close>

definition setQpos ::
  "'a list \<Rightarrow> bool \<Rightarrow> 'a articulated_model \<Rightarrow> (error + unit) \<times> 'a articulated_model" where
  "setQpos qpos full m =
     (if full then (Inr (), setQpos_update (m\<lparr>current_qpos := qpos\<rparr>))
      else
        (case ASSERT (length qpos = qpos_dim m) (setQpos_message (qpos_dim m) (length qpos)) of
           Inl e \<Rightarrow> (Inl e, m)
         | Inr u \<Rightarrow>
             (case setQpos_joints (pinocchio_model m) qpos (move_group_user_joints m)
                     (current_qpos m) 0 of
                (Inl e, cur, len) \<Rightarrow> (Inl e, m\<lparr>current_qpos := cur\<rparr>)
              | (Inr u, cur, len) \<Rightarrow> (Inr (), setQpos_update (m\<lparr>current_qpos := cur\<rparr>)))))"

text \<open>
  The configuration slots of user joint \<open>i\<close>: the \<^verbatim>\<open>getJointDim(i)\<close> consecutive
  indices that start at \<^verbatim>\<open>getJointId(i)\<close>.
\<close>

definition joint_slots :: "'a pinocchio_model \<Rightarrow> nat \<Rightarrow> nat set" where
  "joint_slots pm i = {getJointId pm i ..< getJointId pm i + getJointDim pm i}"

section \<open>KDLModelTpl\<close>

subsection \<open>The KDL library\<close>

text \<open>
  The types of the KDL library that \<^verbatim>\<open>kdl_model.cpp\<close> handles. A chain is the list of
  its segments; of a segment only the joint matters here, and of a joint its name and
  type. \<^verbatim>\<open>Chain::getNrOfJoints\<close> is the number of segments whose joint is not fixed
  (KDL counts them as segments are added to the chain).
\<close>

datatype joint_type =
  RotAxis | RotX | RotY | RotZ | TransAxis | TransX | TransY | TransZ | Fixed

record joint =
  getName :: string
  getType :: joint_type

record segment =
  getJoint :: joint

definition chain_getNrOfJoints :: "segment list \<Rightarrow> nat" where
  "chain_getNrOfJoints chain = length (filter (\<lambda>seg. getType (getJoint seg) \<noteq> Fixed) chain)"

text \<open>
  \<^verbatim>\<open>KDL::Frame(KDL::Rotation::Quaternion(x, y, z, w), KDL::Vector(x, y, z))\<close>; the
  rotation of the quaternion stays symbolic.
\<close>

datatype 'd rotation = Rotation_Quaternion 'd 'd 'd 'd

datatype 'd frame = Frame "'d rotation" "'d \<times> 'd \<times> 'd"

text \<open>
  The tree is a parameter: \<^verbatim>\<open>getChain(root, tip, chain)\<close> fills the chain between two
  segments, \<^verbatim>\<open>getNrOfJoints\<close> is the number of joints of the tree.
\<close>

record kdl_tree =
  getChain :: "string \<Rightarrow> string \<Rightarrow> segment list"
  getNrOfJoints :: nat

text \<open>
  The value the tree solver returns is a \<^verbatim>\<open>double\<close> that the code converts to
  \<^verbatim>\<open>int\<close>, so its value matters. A finite \<^verbatim>\<open>double\<close> is a mantissa times a power of
  two: \<open>Finite m e\<close> stands for \<open>m\<close> times \<open>2\<^sup>e\<close>, so that 0.75 is \<open>Finite 3 (- 2)\<close> and -3 is
  \<open>Finite (- 3) 0\<close>; the infinities and NaN are \<open>NotFinite\<close>.
\<close>

datatype double = Finite int int | NotFinite

text \<open>
  The conversion of a \<^verbatim>\<open>double\<close> to \<^verbatim>\<open>int\<close> that C++ applies implicitly: the
  fraction is cut off (truncation toward zero), and the result must be a value of the
  32-bit \<^verbatim>\<open>int\<close>.
\<close>

definition double_trunc :: "int \<Rightarrow> int \<Rightarrow> int" where
  "double_trunc m e =
     (if 0 \<le> e then m * 2 ^ nat e
      else if 0 \<le> m then m div 2 ^ nat (- e)
      else - ((- m) div 2 ^ nat (- e)))"

definition double_to_int :: "double \<Rightarrow> error + int" where
  "double_to_int d =
     (case d of
        NotFinite \<Rightarrow> Inl NotRepresentable
      | Finite m e \<Rightarrow>
          (let t = double_trunc m e
           in if - (2 ^ 31) \<le> t \<and> t < 2 ^ 31 then Inr t else Inl NotRepresentable))"

text \<open>A \<^verbatim>\<open>double\<close> that holds exactly the integer \<open>k\<close>.\<close>

definition double_is_int :: "double \<Rightarrow> int \<Rightarrow> bool" where
  "double_is_int d k =
     (case d of
        NotFinite \<Rightarrow> False
      | Finite m e \<Rightarrow> (if 0 \<le> e then m * 2 ^ nat e = k else m = k * 2 ^ nat (- e)))"

text \<open>
  The solvers are parameters. Each field stands for constructing the solver from the
  arguments written before the seed and calling its \<^verbatim>\<open>CartToJnt(q_init, goal, q_sol)\<close>:
  it takes the joint array \<^verbatim>\<open>q_sol\<close> as passed in and gives back its contents after the
  call together with the value \<^verbatim>\<open>CartToJnt\<close> returns. The chain solvers return an
  \<^verbatim>\<open>int\<close>; the tree solver of KDL returns a \<^verbatim>\<open>double\<close>. The scalar \<^verbatim>\<open>S\<close> of the
  model is \<open>'a\<close>. The entries of KDL's joint arrays are only copied, so their
  \<^verbatim>\<open>double\<close> stays an abstract \<open>'d\<close>, and the conversions between \<open>'a\<close> and \<open>'d\<close>,
  implicit in the C++, are parameters too.
\<close>

record ('a, 'd) kdl_library =
  S_to_double :: "'a \<Rightarrow> 'd"
  double_to_S :: "'d \<Rightarrow> 'a"
  ChainIkSolverPos_LMA ::
    "segment list \<Rightarrow> (nat \<times> nat) list \<Rightarrow> 'd list \<Rightarrow> 'd frame \<Rightarrow> 'd list \<Rightarrow> 'd list \<times> int"
  ChainIkSolverPos_NR ::
    "segment list \<Rightarrow> 'd list \<Rightarrow> 'd frame \<Rightarrow> 'd list \<Rightarrow> 'd list \<times> int"
  ChainIkSolverPos_NR_JL ::
    "segment list \<Rightarrow> 'd list \<Rightarrow> 'd list \<Rightarrow> 'd list \<Rightarrow> 'd frame \<Rightarrow> 'd list \<Rightarrow> 'd list \<times> int"
  TreeIkSolverPos_NR_JL ::
    "kdl_tree \<Rightarrow> string list \<Rightarrow> 'd list \<Rightarrow> 'd list \<Rightarrow> 'd list \<Rightarrow> (string \<rightharpoonup> 'd frame) \<Rightarrow> 'd list
       \<Rightarrow> 'd list \<times> double"

subsection \<open>The model and the loops its functions share\<close>

record kdl_model =
  tree :: kdl_tree
  tree_root_name :: string
  kdl_user_link_names :: "string list"
  kdl_user_joint_names :: "string list"
  joint_mapping_kdl_2_user :: "nat list"
  user_joint_idx_mapping :: "string \<rightharpoonup> nat"
  verbose :: bool

text \<open>The goal frame built from a pose \<open>x y z qw qx qy qz\<close>.\<close>

definition pose_to_frame :: "('a \<Rightarrow> 'd) \<Rightarrow> 'a vector7 \<Rightarrow> 'd frame" where
  "pose_to_frame cast pose =
     (case pose of Vector7 p0 p1 p2 p3 p4 p5 p6 \<Rightarrow>
        Frame (Rotation_Quaternion (cast p4) (cast p5) (cast p6) (cast p3))
              (cast p0, cast p1, cast p2))"

text \<open>
  The loop over \<^verbatim>\<open>chain.segments\<close> that collects in \<^verbatim>\<open>idx\<close> the user index of every
  joint that is not fixed; \<^verbatim>\<open>user_joint_idx_mapping_.at\<close> throws on a name it does not
  hold.
\<close>

fun chain_joint_idx :: "(string \<rightharpoonup> nat) \<Rightarrow> segment list \<Rightarrow> nat list \<Rightarrow> error + nat list" where
  "chain_joint_idx mp [] idx = Inr idx"
| "chain_joint_idx mp (seg # segs) idx =
     (let joint = getJoint seg
      in if getType joint \<noteq> Fixed then
           (case mp (getName joint) of
              None \<Rightarrow> Inl OutOfRange
            | Some u \<Rightarrow> chain_joint_idx mp segs (idx @ [u]))
         else chain_joint_idx mp segs idx)"

text \<open>The loop \<^verbatim>\<open>for (int i = 0; i < n; i++) q_init(i) = q0[idx[i]]\<close>.\<close>

function gather_loop ::
  "('a \<Rightarrow> 'd) \<Rightarrow> 'a list \<Rightarrow> nat list \<Rightarrow> nat \<Rightarrow> nat \<Rightarrow> 'd list \<Rightarrow> error + 'd list" where
  "gather_loop cast q0 idx n i q_init =
     (if i < n then
        (if i < length idx \<and> idx ! i < length q0 \<and> i < length q_init
         then gather_loop cast q0 idx n (Suc i) (q_init[i := cast (q0 ! (idx ! i))])
         else Inl IndexOutOfBounds)
      else Inr q_init)"
  by pat_completeness auto
termination
  by (relation "measure (\<lambda>(cast, q0, idx, n, i, q_init). n - i)") auto

declare gather_loop.simps [simp del]

text \<open>The loop \<^verbatim>\<open>for (int i = 0; i < n; i++) q1[idx[i]] = q_sol(i)\<close>.\<close>

function scatter_loop ::
  "('d \<Rightarrow> 'a) \<Rightarrow> 'd list \<Rightarrow> nat list \<Rightarrow> nat \<Rightarrow> nat \<Rightarrow> 'a list \<Rightarrow> error + 'a list" where
  "scatter_loop cast q_sol idx n i q1 =
     (if i < n then
        (if i < length idx \<and> idx ! i < length q1 \<and> i < length q_sol
         then scatter_loop cast q_sol idx n (Suc i) (q1[idx ! i := cast (q_sol ! i)])
         else Inl IndexOutOfBounds)
      else Inr q1)"
  by pat_completeness auto
termination
  by (relation "measure (\<lambda>(cast, q_sol, idx, n, i, q1). n - i)") auto

declare scatter_loop.simps [simp del]

text \<open>
  The loop that fills the joint limits,
  \<^verbatim>\<open>q_min(i) = qmin[idx[i]]; q_max(i) = qmax[idx[i]]\<close>.
\<close>

function limits_loop ::
  "('a \<Rightarrow> 'd) \<Rightarrow> 'a list \<Rightarrow> 'a list \<Rightarrow> nat list \<Rightarrow> nat \<Rightarrow> nat \<Rightarrow> 'd list \<times> 'd list
     \<Rightarrow> error + ('d list \<times> 'd list)" where
  "limits_loop cast qmin qmax idx n i (q_min, q_max) =
     (if i < n then
        (if i < length idx \<and> idx ! i < length qmin \<and> i < length q_min
            \<and> idx ! i < length qmax \<and> i < length q_max
         then limits_loop cast qmin qmax idx n (Suc i)
                (q_min[i := cast (qmin ! (idx ! i))], q_max[i := cast (qmax ! (idx ! i))])
         else Inl IndexOutOfBounds)
      else Inr (q_min, q_max))"
  by pat_completeness auto
termination
  by (relation "measure (\<lambda>(cast, qmin, qmax, idx, n, i, lims). n - i)") auto

declare limits_loop.simps [simp del]

text \<open>
  The loop of \<^verbatim>\<open>TreeIKNRJL\<close> that stores the goal frame of every end point,
  \<^verbatim>\<open>frames[endpoints[i]] = KDL::Frame(...)\<close> built from \<^verbatim>\<open>poses[i]\<close>.
\<close>

function frames_loop ::
  "('a \<Rightarrow> 'd) \<Rightarrow> string list \<Rightarrow> 'a vector7 list \<Rightarrow> nat \<Rightarrow> (string \<rightharpoonup> 'd frame)
     \<Rightarrow> error + (string \<rightharpoonup> 'd frame)" where
  "frames_loop cast endpoints poses i frames =
     (if i < length endpoints then
        (if i < length poses
         then frames_loop cast endpoints poses (Suc i)
                (frames(endpoints ! i \<mapsto> pose_to_frame cast (poses ! i)))
         else Inl IndexOutOfBounds)
      else Inr frames)"
  by pat_completeness auto
termination
  by (relation "measure (\<lambda>(cast, endpoints, poses, i, frames). length endpoints - i)") auto

declare frames_loop.simps [simp del]

subsection \<open>The inverse-kinematics functions\<close>

text \<open>
  The weights \<^verbatim>\<open>L\<close> of the LMA solver, \<open>1, 1, 1, 0.01, 0.01, 0.01\<close>, each literal as a
  fraction.
\<close>

definition chainIKLMA_L :: "(nat \<times> nat) list" where
  "chainIKLMA_L = [(1, 1), (1, 1), (1, 1), (1, 100), (1, 100), (1, 100)]"

definition chainIKLMA ::
  "('a, 'd::zero) kdl_library \<Rightarrow> kdl_model \<Rightarrow> nat \<Rightarrow> 'a list \<Rightarrow> 'a vector7 \<Rightarrow> error + ('a list \<times> int)" where
  "chainIKLMA lib km index q0 pose =
     (case ASSERT (index < length (kdl_user_link_names km)) ''link index out of bound'' of
        Inl e \<Rightarrow> Inl e
      | Inr u \<Rightarrow>
          (let chain = getChain (tree km) (tree_root_name km) (kdl_user_link_names km ! index);
               frame_goal = pose_to_frame (S_to_double lib) pose;
               n = chain_getNrOfJoints chain;
               q_init = replicate n 0;
               q_sol = replicate n 0
           in case chain_joint_idx (user_joint_idx_mapping km) chain [] of
                Inl e \<Rightarrow> Inl e
              | Inr idx \<Rightarrow>
                  (case gather_loop (S_to_double lib) q0 idx n 0 q_init of
                     Inl e \<Rightarrow> Inl e
                   | Inr q_init \<Rightarrow>
                       (case ChainIkSolverPos_LMA lib chain chainIKLMA_L q_init frame_goal q_sol of
                          (q_sol, retval) \<Rightarrow>
                            (case scatter_loop (double_to_S lib) q_sol idx n 0 q0 of
                               Inl e \<Rightarrow> Inl e
                             | Inr q1 \<Rightarrow> Inr (q1, retval))))))"

definition chainIKNR ::
  "('a, 'd::zero) kdl_library \<Rightarrow> kdl_model \<Rightarrow> nat \<Rightarrow> 'a list \<Rightarrow> 'a vector7 \<Rightarrow> error + ('a list \<times> int)" where
  "chainIKNR lib km index q0 pose =
     (case ASSERT (index < length (kdl_user_link_names km)) ''link index out of bound'' of
        Inl e \<Rightarrow> Inl e
      | Inr u \<Rightarrow>
          (let chain = getChain (tree km) (tree_root_name km) (kdl_user_link_names km ! index);
               frame_goal = pose_to_frame (S_to_double lib) pose;
               n = chain_getNrOfJoints chain;
               q_init = replicate n 0;
               q_sol = replicate n 0
           in case chain_joint_idx (user_joint_idx_mapping km) chain [] of
                Inl e \<Rightarrow> Inl e
              | Inr idx \<Rightarrow>
                  (case gather_loop (S_to_double lib) q0 idx n 0 q_init of
                     Inl e \<Rightarrow> Inl e
                   | Inr q_init \<Rightarrow>
                       (case ChainIkSolverPos_NR lib chain q_init frame_goal q_sol of
                          (q_sol, retval) \<Rightarrow>
                            (case scatter_loop (double_to_S lib) q_sol idx n 0 q0 of
                               Inl e \<Rightarrow> Inl e
                             | Inr q1 \<Rightarrow> Inr (q1, retval))))))"

definition chainIKNRJL ::
  "('a, 'd::zero) kdl_library \<Rightarrow> kdl_model \<Rightarrow> nat \<Rightarrow> 'a list \<Rightarrow> 'a vector7 \<Rightarrow> 'a list \<Rightarrow> 'a list
     \<Rightarrow> error + ('a list \<times> int)" where
  "chainIKNRJL lib km index q0 pose qmin qmax =
     (case ASSERT (index < length (kdl_user_link_names km)) ''link index out of bound'' of
        Inl e \<Rightarrow> Inl e
      | Inr u \<Rightarrow>
          (let chain = getChain (tree km) (tree_root_name km) (kdl_user_link_names km ! index);
               frame_goal = pose_to_frame (S_to_double lib) pose;
               q_min = replicate (chain_getNrOfJoints chain) 0;
               q_max = replicate (chain_getNrOfJoints chain) 0;
               n = chain_getNrOfJoints chain;
               q_init = replicate n 0;
               q_sol = replicate n 0
           in case chain_joint_idx (user_joint_idx_mapping km) chain [] of
                Inl e \<Rightarrow> Inl e
              | Inr idx \<Rightarrow>
                  (case limits_loop (S_to_double lib) qmin qmax idx n 0 (q_min, q_max) of
                     Inl e \<Rightarrow> Inl e
                   | Inr (q_min, q_max) \<Rightarrow>
                       (case gather_loop (S_to_double lib) q0 idx n 0 q_init of
                          Inl e \<Rightarrow> Inl e
                        | Inr q_init \<Rightarrow>
                            (case ChainIkSolverPos_NR_JL lib chain q_min q_max q_init frame_goal q_sol of
                               (q_sol, retval) \<Rightarrow>
                                 (case scatter_loop (double_to_S lib) q_sol idx n 0 q0 of
                                    Inl e \<Rightarrow> Inl e
                                  | Inr q1 \<Rightarrow> Inr (q1, retval)))))))"

text \<open>
  \<^verbatim>\<open>TreeIKNRJL\<close> works on the whole tree and maps KDL's joint numbers to user indices
  with \<^verbatim>\<open>joint_mapping_kdl_2_user_\<close>. What \<^verbatim>\<open>CartToJnt\<close> returns, a \<^verbatim>\<open>double\<close>, is
  converted to the \<^verbatim>\<open>int\<close> of the result tuple as the tuple is built.
\<close>

definition TreeIKNRJL ::
  "('a, 'd::zero) kdl_library \<Rightarrow> kdl_model \<Rightarrow> string list \<Rightarrow> 'a list \<Rightarrow> 'a vector7 list \<Rightarrow> 'a list
     \<Rightarrow> 'a list \<Rightarrow> error + ('a list \<times> int)" where
  "TreeIKNRJL lib km endpoints q0 poses qmin qmax =
     (let n = getNrOfJoints (tree km);
          q_min = replicate n 0; q_max = replicate n 0;
          q_init = replicate n 0; q_sol = replicate n 0
      in case limits_loop (S_to_double lib) qmin qmax (joint_mapping_kdl_2_user km) n 0
                (q_min, q_max) of
           Inl e \<Rightarrow> Inl e
         | Inr (q_min, q_max) \<Rightarrow>
             (case frames_loop (S_to_double lib) endpoints poses 0 Map.empty of
                Inl e \<Rightarrow> Inl e
              | Inr frames \<Rightarrow>
                  (case gather_loop (S_to_double lib) q0 (joint_mapping_kdl_2_user km) n 0 q_init of
                     Inl e \<Rightarrow> Inl e
                   | Inr q_init \<Rightarrow>
                       (case TreeIkSolverPos_NR_JL lib (tree km) endpoints q_min q_max q_init
                               frames q_sol of
                          (q_sol, retval) \<Rightarrow>
                            (case scatter_loop (double_to_S lib) q_sol
                                    (joint_mapping_kdl_2_user km) n 0 q0 of
                               Inl e \<Rightarrow> Inl e
                             | Inr q1 \<Rightarrow>
                                 (case double_to_int retval of
                                    Inl e \<Rightarrow> Inl e
                                  | Inr status \<Rightarrow> Inr (q1, status)))))))"

text \<open>
  The chain from the root of the tree to the link of a user index, and the user indices
  of the joints on it that are not fixed: what \<^verbatim>\<open>idx\<close> holds once its loop has run.
\<close>

abbreviation target_chain :: "kdl_model \<Rightarrow> nat \<Rightarrow> segment list" where
  "target_chain km index \<equiv>
     getChain (tree km) (tree_root_name km) (kdl_user_link_names km ! index)"

definition chain_user_joints :: "kdl_model \<Rightarrow> nat \<Rightarrow> nat set" where
  "chain_user_joints km index =
     {u. \<exists>seg \<in> set (target_chain km index).
           getType (getJoint seg) \<noteq> Fixed
           \<and> user_joint_idx_mapping km (getName (getJoint seg)) = Some u}"

section \<open>The validity checker of the planner adapter\<close>

text \<open>
  \<^verbatim>\<open>PlanningWorldTpl\<close> is implemented in a file of its own that this development does
  not cover. The members the validity checker calls are parameters, over any type \<open>'w\<close> of world states: \<^verbatim>\<open>setQposAll\<close>
  writes a state into the world or throws, \<^verbatim>\<open>collide\<close> is the boolean collision query
  and \<^verbatim>\<open>distance\<close> the signed distance query of the world, both called with their
  default request.
\<close>

record ('a, 'w) planning_world =
  setQposAll :: "'a list \<Rightarrow> 'w \<Rightarrow> error + 'w"
  collide :: "'w \<Rightarrow> bool"
  distance :: "'w \<Rightarrow> 'a"

text \<open>
  The two copying loops, each element through a \<^verbatim>\<open>static_cast\<close>.
\<close>

definition eigen2vector :: "('i \<Rightarrow> 'o) \<Rightarrow> 'i list \<Rightarrow> 'o list" where
  "eigen2vector static_cast x = map static_cast x"

definition vector2eigen :: "('i \<Rightarrow> 'o) \<Rightarrow> 'i list \<Rightarrow> 'o list" where
  "vector2eigen static_cast x = map static_cast x"

text \<open>
  \<^verbatim>\<open>state2vector\<close> is only declared in the header and is a parameter; in
  \<^verbatim>\<open>state2eigen\<close> the cast of \<^verbatim>\<open>vector2eigen<S, S>\<close> is the identity.
\<close>

definition state2eigen :: "('s \<Rightarrow> 'a list) \<Rightarrow> 's \<Rightarrow> 'a list" where
  "state2eigen state2vector state_raw =
     (let vec_ret = state2vector state_raw;
          ret = vector2eigen (\<lambda>x. x) vec_ret
      in ret)"

text \<open>
  The three members of \<^verbatim>\<open>ValidityCheckerTpl\<close>. The world is shared and written by
  each call, so each returns the world it leaves next to its answer; an exception of
  \<^verbatim>\<open>setQposAll\<close> passes through.
\<close>

definition isValid ::
  "('a, 'w) planning_world \<Rightarrow> ('s \<Rightarrow> 'a list) \<Rightarrow> 's \<Rightarrow> 'w \<Rightarrow> error + (bool \<times> 'w)" where
  "isValid world state2vector state_raw w =
     (case setQposAll world (state2eigen state2vector state_raw) w of
        Inl e \<Rightarrow> Inl e
      | Inr w' \<Rightarrow> Inr (\<not> collide world w', w'))"

definition clearance ::
  "('a, 'w) planning_world \<Rightarrow> ('a \<Rightarrow> 'c) \<Rightarrow> ('s \<Rightarrow> 'a list) \<Rightarrow> 's \<Rightarrow> 'w \<Rightarrow> error + ('c \<times> 'w)" where
  "clearance world static_cast_double state2vector state_raw w =
     (case setQposAll world (state2eigen state2vector state_raw) w of
        Inl e \<Rightarrow> Inl e
      | Inr w' \<Rightarrow> Inr (static_cast_double (distance world w'), w'))"

text \<open>The member \<^verbatim>\<open>_isValid\<close>, which takes the state as a vector.\<close>

definition isValid_VectorX ::
  "('a, 'w) planning_world \<Rightarrow> 'a list \<Rightarrow> 'w \<Rightarrow> error + (bool \<times> 'w)" where
  "isValid_VectorX world state w =
     (case setQposAll world state w of
        Inl e \<Rightarrow> Inl e
      | Inr w' \<Rightarrow> Inr (\<not> collide world w', w'))"

section \<open>The distance queries of the planning world\<close>

text \<open>
  The result record, with the fields the Python binding publishes (the result of the
  collision library, \<^verbatim>\<open>res\<close>, is left out).
\<close>

record 'a WorldDistanceResult =
  min_distance :: 'a
  distance_type :: string
  object_name1 :: string
  object_name2 :: string
  link_name1 :: string
  link_name2 :: string

text \<open>
  Modelled from the spec: the implementation of \<^verbatim>\<open>PlanningWorldTpl\<close>, and with it
  \<^verbatim>\<open>distanceSelf\<close>, \<^verbatim>\<open>distanceOthers\<close> and \<^verbatim>\<open>distanceFull\<close>, is missing; only the
  Python binding of the three queries is there. The spec gives each distance query a scope
  of pairs: \<open>self\<close> (pairs among the planned articulations and their attached objects),
  \<open>with-others\<close> (planned bodies against everything fixed) and \<open>full\<close>, which is
  "self \<open>\<union>\<close> with-others". A world state is taken as the results the distance
  collaborator measures for the pairs of the two basic scopes. "Distance queries must
  always return the minimum (most-penetrating or closest) result across all pairs scoped
  by the query": a query keeps the result with the least distance, and has no result when
  its scope holds no pair.
\<close>

record 'a distance_world =
  self_pairs :: "'a WorldDistanceResult list"
  others_pairs :: "'a WorldDistanceResult list"

text \<open>
  Modelled from the spec: the scan over the pairs of a scope that keeps "the minimum
  (most-penetrating or closest) result across all pairs", the first of them among equals.
\<close>

fun min_result :: "('a::linorder) WorldDistanceResult \<Rightarrow> 'a WorldDistanceResult list
    \<Rightarrow> 'a WorldDistanceResult" where
  "min_result best [] = best"
| "min_result best (r # rs) =
     min_result (if min_distance r < min_distance best then r else best) rs"

text \<open>
  Modelled from the spec: a distance query over the pairs of its scope; no pair, no result.
\<close>

definition scope_distance ::
  "('a::linorder) WorldDistanceResult list \<Rightarrow> 'a WorldDistanceResult option" where
  "scope_distance pairs = (case pairs of [] \<Rightarrow> None | r # rs \<Rightarrow> Some (min_result r rs))"

text \<open>Modelled from the spec: \<^verbatim>\<open>distanceSelf\<close>, the query over the \<open>self\<close> scope.\<close>

definition distanceSelf :: "('a::linorder) distance_world \<Rightarrow> 'a WorldDistanceResult option" where
  "distanceSelf w = scope_distance (self_pairs w)"

text \<open>
  Modelled from the spec: \<^verbatim>\<open>distanceOthers\<close>, the query over the \<open>with-others\<close> scope.
\<close>

definition distanceOthers :: "('a::linorder) distance_world \<Rightarrow> 'a WorldDistanceResult option" where
  "distanceOthers w = scope_distance (others_pairs w)"

text \<open>
  Modelled from the spec: \<^verbatim>\<open>distanceFull\<close>, the query over the \<open>full\<close> scope, which is
  the pairs of \<open>self\<close> together with those of \<open>with-others\<close>.
\<close>

definition distanceFull :: "('a::linorder) distance_world \<Rightarrow> 'a WorldDistanceResult option" where
  "distanceFull w = scope_distance (self_pairs w @ others_pairs w)"

section \<open>A small example model\<close>

text \<open>
  A tree with three joints: \<open>joint_a\<close> (one degree of freedom) leads to \<open>link_a\<close>;
  on a second branch \<open>joint_b\<close> (two degrees of freedom) leads to \<open>link_b\<close> and
  \<open>joint_c\<close> (one degree of freedom) leads on to \<open>link_c\<close>. The full configuration
  has four entries; the move group is the chain to \<open>link_c\<close>.
\<close>

definition example_pinocchio :: "int pinocchio_model" where
  "example_pinocchio =
     \<lparr>getJointId = (\<lambda>i. if i = 0 then 0 else if i = 1 then 1 else if i = 2 then 3 else 4),
      getJointDim = (\<lambda>i. if i = 1 then 2 else if i < 3 then 1 else 0),
      getChainJointIndex = (\<lambda>name. if name = ''link_a'' then [0] else if name = ''link_b'' then [1]
                              else if name = ''link_c'' then [1, 2] else []),
      linkPoseAt = (\<lambda>q i. Vector7 (sum_list q) (int i) 0 1 0 0 0),
      data_qpos = [0, 0, 0, 0],
      fk_count = 0\<rparr>"

definition example_arm :: "int articulated_model" where
  "example_arm =
     \<lparr>pinocchio_model = example_pinocchio,
      fcl_model = \<lparr>collision_link_pose = [], update_count = 0\<rparr>,
      user_link_names = [''link_a'', ''link_b'', ''link_c''],
      user_joint_names = [''joint_a'', ''joint_b'', ''joint_c''],
      move_group_user_joints = [1, 2],
      move_group_end_effectors = [''link_c''],
      current_qpos = [10, 20, 30, 40],
      qpos_dim = 3\<rparr>"

text \<open>
  The same tree for the KDL model; the chain to \<open>link_c\<close> has a fixed segment between its
  two joints. The solvers of the example library return fixed status codes; in the second
  library the tree solver returns a remaining distance of 0.75 instead.
\<close>

definition example_segment :: "string \<Rightarrow> joint_type \<Rightarrow> segment" where
  "example_segment name ty = \<lparr>getJoint = \<lparr>getName = name, getType = ty\<rparr>\<rparr>"

definition example_tree :: kdl_tree where
  "example_tree =
     \<lparr>getChain = (\<lambda>root tip.
         if tip = ''link_a'' then [example_segment ''joint_a'' RotZ]
         else if tip = ''link_b'' then [example_segment ''joint_b'' RotZ]
         else if tip = ''link_c'' then
           [example_segment ''joint_b'' RotZ, example_segment ''mount'' Fixed,
            example_segment ''joint_c'' TransX]
         else []),
      getNrOfJoints = 3\<rparr>"

definition example_kdl :: kdl_model where
  "example_kdl =
     \<lparr>tree = example_tree,
      tree_root_name = ''base'',
      kdl_user_link_names = [''link_a'', ''link_b'', ''link_c''],
      kdl_user_joint_names = [''joint_a'', ''joint_b'', ''joint_c''],
      joint_mapping_kdl_2_user = [0, 1, 2],
      user_joint_idx_mapping = [''joint_a'' \<mapsto> 0, ''joint_b'' \<mapsto> 1, ''joint_c'' \<mapsto> 2],
      verbose = False\<rparr>"

definition example_library :: "(int, int) kdl_library" where
  "example_library =
     \<lparr>S_to_double = (\<lambda>x. x),
      double_to_S = (\<lambda>x. x),
      ChainIkSolverPos_LMA = (\<lambda>chain L q_init goal q_sol. (map (\<lambda>x. x + 1) q_init, - 1)),
      ChainIkSolverPos_NR = (\<lambda>chain q_init goal q_sol. (map (\<lambda>x. x + 2) q_init, - 5)),
      ChainIkSolverPos_NR_JL = (\<lambda>chain q_min q_max q_init goal q_sol. (q_max, 0)),
      TreeIkSolverPos_NR_JL =
        (\<lambda>tree endpoints q_min q_max q_init goals q_sol. (q_min, Finite (- 3) 0))\<rparr>"

definition example_library_distance :: "(int, int) kdl_library" where
  "example_library_distance =
     example_library
       \<lparr>TreeIkSolverPos_NR_JL :=
          (\<lambda>tree endpoints q_min q_max q_init goals q_sol. (q_min, Finite 3 (- 2)))\<rparr>"

definition example_pose :: "int vector7" where
  "example_pose = Vector7 1 2 3 1 0 0 0"

text \<open>
  A world for the validity checker: a point on a line and an obstacle that fills the
  interval from 5 to 7. The world state is the position of the point.
\<close>

definition example_world :: "(int, int) planning_world" where
  "example_world =
     \<lparr>setQposAll = (\<lambda>q w. case q of [x] \<Rightarrow> Inr x | _ \<Rightarrow> Inl (RuntimeError ''wrong length'')),
      collide = (\<lambda>w. 5 \<le> w \<and> w \<le> 7),
      distance = (\<lambda>w. max (5 - w) (w - 7))\<rparr>"

text \<open>A world for the distance queries, with two pairs in the self scope and one other.\<close>

definition example_result :: "int \<Rightarrow> string \<Rightarrow> string \<Rightarrow> string \<Rightarrow> int WorldDistanceResult" where
  "example_result d ty l1 l2 =
     \<lparr>min_distance = d, distance_type = ty, object_name1 = ''arm'', object_name2 = ''arm'',
      link_name1 = l1, link_name2 = l2\<rparr>"

definition example_distance_world :: "int distance_world" where
  "example_distance_world =
     \<lparr>self_pairs = [example_result 4 ''self'' ''link_a'' ''link_b'',
                    example_result (- 2) ''self'' ''link_a'' ''link_c''],
      others_pairs = [example_result 1 ''others'' ''link_c'' ''box'']\<rparr>"

section \<open>Properties of the articulated model\<close>

subsection \<open>The move group\<close>

lemma setMoveGroup_insert_set:
  "set (setMoveGroup_insert pm ees js) = set js \<union> (\<Union>ee\<in>set ees. set (getChainJointIndex pm ee))"
  by (induction ees arbitrary: js) (auto simp: Let_def)

lemma setMoveGroup_dim_sum:
  "setMoveGroup_dim pm js d = d + sum_list (map (getJointDim pm) js)"
  by (induction js arbitrary: d) auto

lemma sorted_remdups_adj_distinct: "sorted xs \<Longrightarrow> distinct (remdups_adj xs)"
  by (induction xs rule: remdups_adj.induct) auto

lemma setMoveGroup_joints_eq:
  "move_group_user_joints (setMoveGroup ees m) =
     remdups_adj (sort (setMoveGroup_insert (pinocchio_model m) ees []))"
  by (simp add: setMoveGroup_def Let_def)

lemma setMoveGroup_qpos_dim_eq:
  "qpos_dim (setMoveGroup ees m) =
     sum_list (map (getJointDim (pinocchio_model m)) (move_group_user_joints (setMoveGroup ees m)))"
  by (simp add: setMoveGroup_def Let_def setMoveGroup_dim_sum)

lemma setMoveGroup_other_fields:
  "pinocchio_model (setMoveGroup ees m) = pinocchio_model m"
  "current_qpos (setMoveGroup ees m) = current_qpos m"
  "move_group_end_effectors (setMoveGroup ees m) = ees"
  by (simp_all add: setMoveGroup_def Let_def)

lemma setMoveGroup_distinct: "distinct (move_group_user_joints (setMoveGroup ees m))"
  by (simp add: setMoveGroup_joints_eq sorted_remdups_adj_distinct)

text \<open>
  Claim C3. For every list of end-effector link names, \<^verbatim>\<open>setMoveGroup\<close> makes the
  move-group joint list the union of the joint indices that \<^verbatim>\<open>getChainJointIndex\<close>
  gives for the path from the root to each named link, with duplicates removed and in
  ascending order, and sets \<^verbatim>\<open>qpos_dim_\<close> to the sum of \<^verbatim>\<open>getJointDim\<close> over exactly
  that set.
\<close>

theorem setMoveGroup_joint_set:
  fixes m :: "'a articulated_model" and ees :: "string list"
  defines "m' \<equiv> setMoveGroup ees m"
  defines "path_joints \<equiv> (\<Union>ee\<in>set ees. set (getChainJointIndex (pinocchio_model m) ee))"
  shows "set (move_group_user_joints m') = path_joints
       \<and> sorted_wrt (<) (move_group_user_joints m')
       \<and> move_group_user_joints m' = sorted_list_of_set path_joints
       \<and> qpos_dim m' = (\<Sum>i\<in>path_joints. getJointDim (pinocchio_model m) i)"
proof -
  let ?raw = "setMoveGroup_insert (pinocchio_model m) ees []"
  have mg: "move_group_user_joints m' = remdups_adj (sort ?raw)"
    unfolding m'_def by (rule setMoveGroup_joints_eq)
  have s: "set (move_group_user_joints m') = path_joints"
    unfolding mg path_joints_def by (simp add: setMoveGroup_insert_set)
  have so: "sorted (move_group_user_joints m')"
    unfolding mg by (simp add: sorted_remdups_adj)
  have di: "distinct (move_group_user_joints m')"
    unfolding mg by (simp add: sorted_remdups_adj_distinct)
  have st: "sorted_wrt (<) (move_group_user_joints m')"
    using so di by (simp add: strict_sorted_iff)
  have sl: "move_group_user_joints m' = sorted_list_of_set path_joints"
    using so di s sorted_list_of_set.idem_if_sorted_distinct by metis
  have "qpos_dim m' = sum_list (map (getJointDim (pinocchio_model m)) (move_group_user_joints m'))"
    unfolding m'_def by (rule setMoveGroup_qpos_dim_eq)
  also have "\<dots> = (\<Sum>i\<in>set (move_group_user_joints m'). getJointDim (pinocchio_model m) i)"
    using di by (rule sum_list_distinct_conv_sum_set)
  finally have "qpos_dim m' = (\<Sum>i\<in>path_joints. getJointDim (pinocchio_model m) i)"
    using s by simp
  with s st sl show ?thesis by simp
qed

theorem setMoveGroup_joint_set_witness:
  "move_group_user_joints (setMoveGroup [''link_c'', ''link_b''] example_arm) = [1, 2]
   \<and> qpos_dim (setMoveGroup [''link_c'', ''link_b''] example_arm) = 3"
proof -
  have u: "(\<Union>ee\<in>set [''link_c'', ''link_b''].
              set (getChainJointIndex (pinocchio_model example_arm) ee)) = {1, 2}"
    by (auto simp: example_arm_def example_pinocchio_def)
  have "sorted_list_of_set {1, 2 :: nat} = [1, 2]"
    by (simp add: sorted_list_of_set.idem_if_sorted_distinct[of "[1, 2]", simplified])
  moreover have "(\<Sum>i\<in>{1, 2 :: nat}. getJointDim (pinocchio_model example_arm) i) = 3"
    by (simp add: example_arm_def example_pinocchio_def)
  ultimately show ?thesis
    using setMoveGroup_joint_set[of "[''link_c'', ''link_b'']" example_arm] unfolding u by simp
qed

subsection \<open>Writing a reduced configuration\<close>

lemma setQpos_joint_ok:
  "j \<le> dim_i \<Longrightarrow> len + (dim_i - j) \<le> length qpos \<Longrightarrow> start_idx + dim_i \<le> length cur \<Longrightarrow>
   \<exists>cur'. setQpos_joint qpos start_idx dim_i j cur len = (Inr (), cur', len + (dim_i - j))
     \<and> length cur' = length cur
     \<and> (\<forall>k < length cur. cur' ! k =
           (if start_idx + j \<le> k \<and> k < start_idx + dim_i
            then qpos ! (len + (k - (start_idx + j))) else cur ! k))"
proof (induction qpos start_idx dim_i j cur len rule: setQpos_joint.induct)
  case (1 qpos start_idx dim_i j cur len)
  show ?case
  proof (cases "j < dim_i")
    case False
    with "1.prems" show ?thesis
      by (auto simp: setQpos_joint.simps)
  next
    case True
    with "1.prems" have rng: "len < length qpos \<and> start_idx + j < length cur"
      by simp
    let ?cur1 = "cur[start_idx + j := qpos ! len]"
    from True "1.prems" have p: "Suc j \<le> dim_i" "Suc len + (dim_i - Suc j) \<le> length qpos"
      "start_idx + dim_i \<le> length ?cur1"
      by simp_all
    from "1.IH"[OF True rng p] obtain cur' where
      c: "setQpos_joint qpos start_idx dim_i (Suc j) ?cur1 (Suc len)
            = (Inr (), cur', Suc len + (dim_i - Suc j))"
      and l: "length cur' = length ?cur1"
      and v: "\<forall>k < length ?cur1. cur' ! k =
           (if start_idx + Suc j \<le> k \<and> k < start_idx + dim_i
            then qpos ! (Suc len + (k - (start_idx + Suc j))) else ?cur1 ! k)"
      by blast
    have e: "setQpos_joint qpos start_idx dim_i j cur len = (Inr (), cur', len + (dim_i - j))"
      using True rng c by (subst setQpos_joint.simps) (simp add: Suc_diff_Suc)
    have "\<forall>k < length cur. cur' ! k =
           (if start_idx + j \<le> k \<and> k < start_idx + dim_i
            then qpos ! (len + (k - (start_idx + j))) else cur ! k)"
    proof (intro allI impI)
      fix k assume k: "k < length cur"
      show "cur' ! k = (if start_idx + j \<le> k \<and> k < start_idx + dim_i
            then qpos ! (len + (k - (start_idx + j))) else cur ! k)"
      proof (cases "k = start_idx + j")
        case True
        with v k rng show ?thesis using \<open>j < dim_i\<close> by simp
      next
        case False
        with v k show ?thesis
          by (auto simp: Suc_diff_le le_Suc_eq intro!: arg_cong[where f="(!) qpos"])
      qed
    qed
    with e l show ?thesis by simp
  qed
qed

lemma setQpos_joints_frame:
  "len + sum_list (map (getJointDim pm) js) \<le> length qpos \<Longrightarrow>
   \<forall>i \<in> set js. getJointId pm i + getJointDim pm i \<le> length cur \<Longrightarrow>
   \<exists>cur'. setQpos_joints pm qpos js cur len
             = (Inr (), cur', len + sum_list (map (getJointDim pm) js))
     \<and> length cur' = length cur
     \<and> (\<forall>k < length cur. (\<forall>i \<in> set js. k \<notin> joint_slots pm i) \<longrightarrow> cur' ! k = cur ! k)"
proof (induction js arbitrary: cur len)
  case Nil
  then show ?case by simp
next
  case (Cons i js)
  let ?s = "getJointId pm i" and ?d = "getJointDim pm i"
  from Cons.prems have "0 \<le> ?d" "len + (?d - 0) \<le> length qpos" "?s + ?d \<le> length cur"
    by simp_all
  from setQpos_joint_ok[OF this] obtain cur1 where
    c1: "setQpos_joint qpos ?s ?d 0 cur len = (Inr (), cur1, len + ?d)"
    and l1: "length cur1 = length cur"
    and v1: "\<forall>k < length cur. cur1 ! k =
           (if ?s \<le> k \<and> k < ?s + ?d then qpos ! (len + (k - ?s)) else cur ! k)"
    by auto
  from Cons.prems l1 have "len + ?d + sum_list (map (getJointDim pm) js) \<le> length qpos"
    "\<forall>i \<in> set js. getJointId pm i + getJointDim pm i \<le> length cur1"
    by simp_all
  from Cons.IH[OF this] obtain cur' where
    c2: "setQpos_joints pm qpos js cur1 (len + ?d)
           = (Inr (), cur', len + ?d + sum_list (map (getJointDim pm) js))"
    and l2: "length cur' = length cur1"
    and v2: "\<forall>k < length cur1. (\<forall>i \<in> set js. k \<notin> joint_slots pm i) \<longrightarrow> cur' ! k = cur1 ! k"
    by blast
  have "setQpos_joints pm qpos (i # js) cur len
          = (Inr (), cur', len + sum_list (map (getJointDim pm) (i # js)))"
    using c1 c2 by (simp add: add.assoc)
  moreover have "length cur' = length cur" using l1 l2 by simp
  moreover have "\<forall>k < length cur. (\<forall>i' \<in> set (i # js). k \<notin> joint_slots pm i') \<longrightarrow> cur' ! k = cur ! k"
    using v1 v2 l1 by (auto simp: joint_slots_def)
  ultimately show ?case by blast
qed

lemma setQpos_joints_values:
  "len + sum_list (map (getJointDim pm) js) \<le> length qpos \<Longrightarrow>
   \<forall>i \<in> set js. getJointId pm i + getJointDim pm i \<le> length cur \<Longrightarrow>
   distinct js \<Longrightarrow>
   \<forall>i \<in> set js. \<forall>i' \<in> set js. i \<noteq> i' \<longrightarrow> joint_slots pm i \<inter> joint_slots pm i' = {} \<Longrightarrow>
   setQpos_joints pm qpos js cur len = (r, cur', len') \<Longrightarrow>
   n < length js \<Longrightarrow> t < getJointDim pm (js ! n) \<Longrightarrow>
   cur' ! (getJointId pm (js ! n) + t) = qpos ! (len + sum_list (map (getJointDim pm) (take n js)) + t)"
proof (induction js arbitrary: cur len n)
  case Nil
  then show ?case by simp
next
  case (Cons i js)
  let ?s = "getJointId pm i" and ?d = "getJointDim pm i"
  from Cons.prems have "0 \<le> ?d" "len + (?d - 0) \<le> length qpos" "?s + ?d \<le> length cur"
    by simp_all
  from setQpos_joint_ok[OF this] obtain cur1 where
    c1: "setQpos_joint qpos ?s ?d 0 cur len = (Inr (), cur1, len + ?d)"
    and l1: "length cur1 = length cur"
    and v1: "\<forall>k < length cur. cur1 ! k =
           (if ?s \<le> k \<and> k < ?s + ?d then qpos ! (len + (k - ?s)) else cur ! k)"
    by auto
  from Cons.prems l1 have p: "len + ?d + sum_list (map (getJointDim pm) js) \<le> length qpos"
    "\<forall>i \<in> set js. getJointId pm i + getJointDim pm i \<le> length cur1"
    by simp_all
  from Cons.prems c1 have c2: "setQpos_joints pm qpos js cur1 (len + ?d) = (r, cur', len')"
    by simp
  show ?case
  proof (cases n)
    case 0
    with Cons.prems have t: "t < ?d" by simp
    from setQpos_joints_frame[OF p] c2 obtain
      v2: "\<forall>k < length cur1. (\<forall>i \<in> set js. k \<notin> joint_slots pm i) \<longrightarrow> cur' ! k = cur1 ! k"
      by auto
    have "?s + t \<in> joint_slots pm i" using t by (simp add: joint_slots_def)
    moreover have "\<forall>i' \<in> set js. joint_slots pm i \<inter> joint_slots pm i' = {}"
      using Cons.prems(3,4) by auto
    ultimately have "\<forall>i' \<in> set js. ?s + t \<notin> joint_slots pm i'" by blast
    moreover have "?s + t < length cur1" using t l1 \<open>?s + ?d \<le> length cur\<close> by simp
    ultimately have "cur' ! (?s + t) = cur1 ! (?s + t)" using v2 by blast
    also have "\<dots> = qpos ! (len + t)" using v1 t \<open>?s + ?d \<le> length cur\<close> by simp
    finally show ?thesis using 0 by simp
  next
    case (Suc n')
    from Cons.prems Suc have "distinct js"
      "\<forall>i \<in> set js. \<forall>i' \<in> set js. i \<noteq> i' \<longrightarrow> joint_slots pm i \<inter> joint_slots pm i' = {}"
      "n' < length js" "t < getJointDim pm (js ! n')"
      by simp_all
    from Cons.IH[OF p this(1,2) c2 this(3,4)] show ?thesis
      using Suc by (simp add: add.assoc)
  qed
qed

lemma setQpos_joint_result:
  "fst (setQpos_joint qpos start_idx dim_i j cur len) = Inr ()
   \<or> fst (setQpos_joint qpos start_idx dim_i j cur len) = Inl IndexOutOfBounds"
  by (induction qpos start_idx dim_i j cur len rule: setQpos_joint.induct)
     (subst (1 2) setQpos_joint.simps, simp)

lemma setQpos_joints_result:
  "fst (setQpos_joints pm qpos js cur len) = Inr ()
   \<or> fst (setQpos_joints pm qpos js cur len) = Inl IndexOutOfBounds"
proof (induction js arbitrary: cur len)
  case Nil
  then show ?case by simp
next
  case (Cons i js)
  show ?case
    using setQpos_joint_result[of qpos "getJointId pm i" "getJointDim pm i" 0 cur len] Cons.IH
    by (auto simp: Let_def split: prod.splits sum.splits)
qed

lemma setQpos_update_fields:
  "current_qpos (setQpos_update m) = current_qpos m"
  "move_group_user_joints (setQpos_update m) = move_group_user_joints m"
  "qpos_dim (setQpos_update m) = qpos_dim m"
  "data_qpos (pinocchio_model (setQpos_update m)) = current_qpos m"
  "fk_count (pinocchio_model (setQpos_update m)) = Suc (fk_count (pinocchio_model m))"
  "update_count (fcl_model (setQpos_update m)) = Suc (update_count (fcl_model m))"
  by (simp_all add: setQpos_update_def Let_def computeForwardKinematics_def
      updateCollisionObjects_def)

lemma example_slots_disjoint:
  "\<forall>i i'. i \<noteq> i' \<longrightarrow> joint_slots example_pinocchio i \<inter> joint_slots example_pinocchio i' = {}"
  by (auto simp: joint_slots_def example_pinocchio_def split: if_splits)

text \<open>
  Claim C1. Let \<open>q\<close> have the length \<^verbatim>\<open>qpos_dim_\<close>, on a model whose move group is as
  \<^verbatim>\<open>setMoveGroup\<close> leaves it (distinct joints, \<^verbatim>\<open>qpos_dim_\<close> the sum of their
  dimensions) and whose kinematic tables give each joint its own slots inside the
  configuration vector. Then \<^verbatim>\<open>setQpos(q, false)\<close> returns, the \<open>n\<close>-th move-group joint
  receives in its slots the next \<^verbatim>\<open>getJointDim\<close> entries of \<open>q\<close> in order, every index
  outside the slots of the move-group joints keeps its value, and so does every slot of a
  joint that is not in the move group.
\<close>

theorem setQpos_reduced_scatter:
  fixes m :: "'a articulated_model" and q :: "'a list"
  defines "pm \<equiv> pinocchio_model m"
  defines "mg \<equiv> move_group_user_joints m"
  defines "F \<equiv> current_qpos m"
  assumes len: "length q = qpos_dim m"
    and dim: "qpos_dim m = sum_list (map (getJointDim pm) mg)"
    and dist: "distinct mg"
    and rng: "\<forall>i\<in>set mg. getJointId pm i + getJointDim pm i \<le> length F"
    and disj: "\<forall>i i'. i \<noteq> i' \<longrightarrow> joint_slots pm i \<inter> joint_slots pm i' = {}"
  shows "\<exists>m'. setQpos q False m = (Inr (), m')
           \<and> length (current_qpos m') = length F
           \<and> (\<forall>n<length mg. \<forall>t<getJointDim pm (mg ! n).
                 current_qpos m' ! (getJointId pm (mg ! n) + t)
                   = q ! (sum_list (map (getJointDim pm) (take n mg)) + t))
           \<and> (\<forall>k<length F. (\<forall>i\<in>set mg. k \<notin> joint_slots pm i) \<longrightarrow> current_qpos m' ! k = F ! k)
           \<and> (\<forall>i. i \<notin> set mg \<longrightarrow>
                 (\<forall>k\<in>joint_slots pm i. k < length F \<longrightarrow> current_qpos m' ! k = F ! k))"
proof -
  have a: "0 + sum_list (map (getJointDim pm) mg) \<le> length q"
    using len dim by simp
  from setQpos_joints_frame[OF a rng] obtain cur' where
    c: "setQpos_joints pm q mg F 0 = (Inr (), cur', 0 + sum_list (map (getJointDim pm) mg))"
    and l: "length cur' = length F"
    and fr: "\<forall>k<length F. (\<forall>i\<in>set mg. k \<notin> joint_slots pm i) \<longrightarrow> cur' ! k = F ! k"
    by blast
  let ?m' = "setQpos_update (m\<lparr>current_qpos := cur'\<rparr>)"
  have r: "setQpos q False m = (Inr (), ?m')"
    using len c by (simp add: setQpos_def ASSERT_def pm_def mg_def F_def)
  have cq: "current_qpos ?m' = cur'"
    by (simp add: setQpos_update_fields)
  have d': "\<forall>i\<in>set mg. \<forall>i'\<in>set mg. i \<noteq> i' \<longrightarrow> joint_slots pm i \<inter> joint_slots pm i' = {}"
    using disj by blast
  have v: "\<forall>n<length mg. \<forall>t<getJointDim pm (mg ! n).
             cur' ! (getJointId pm (mg ! n) + t)
               = q ! (sum_list (map (getJointDim pm) (take n mg)) + t)"
    using setQpos_joints_values[OF a rng dist d' c] by simp
  have o: "\<forall>i. i \<notin> set mg \<longrightarrow> (\<forall>k\<in>joint_slots pm i. k < length F \<longrightarrow> cur' ! k = F ! k)"
  proof (intro allI impI ballI)
    fix i k
    assume i: "i \<notin> set mg" and k: "k \<in> joint_slots pm i" "k < length F"
    have "\<forall>i'\<in>set mg. k \<notin> joint_slots pm i'"
    proof
      fix i' assume "i' \<in> set mg"
      with i have "i \<noteq> i'" by blast
      with disj have "joint_slots pm i \<inter> joint_slots pm i' = {}" by blast
      with k show "k \<notin> joint_slots pm i'" by blast
    qed
    with fr k show "cur' ! k = F ! k" by blast
  qed
  show ?thesis
  proof (intro exI[of _ ?m'] conjI)
    show "setQpos q False m = (Inr (), ?m')" by (rule r)
    show "length (current_qpos ?m') = length F" using l by (simp only: cq)
    show "\<forall>n<length mg. \<forall>t<getJointDim pm (mg ! n).
            current_qpos ?m' ! (getJointId pm (mg ! n) + t)
              = q ! (sum_list (map (getJointDim pm) (take n mg)) + t)"
      using v by (simp only: cq)
    show "\<forall>k<length F. (\<forall>i\<in>set mg. k \<notin> joint_slots pm i) \<longrightarrow> current_qpos ?m' ! k = F ! k"
      using fr by (simp only: cq)
    show "\<forall>i. i \<notin> set mg \<longrightarrow>
            (\<forall>k\<in>joint_slots pm i. k < length F \<longrightarrow> current_qpos ?m' ! k = F ! k)"
      using o by (simp only: cq)
  qed
qed

theorem setQpos_reduced_scatter_witness:
  "length [7, 8, 9 :: int] = qpos_dim example_arm
   \<and> (\<exists>m'. setQpos [7, 8, 9] False example_arm = (Inr (), m')
         \<and> length (current_qpos m') = 4
         \<and> current_qpos m' ! 0 = 10 \<and> current_qpos m' ! 1 = 7
         \<and> current_qpos m' ! 2 = 8 \<and> current_qpos m' ! 3 = 9)"
proof -
  let ?pm = "pinocchio_model example_arm"
  have pm: "?pm = example_pinocchio" by (simp add: example_arm_def)
  have h1: "length [7, 8, 9 :: int] = qpos_dim example_arm"
    by (simp add: example_arm_def)
  have h2: "qpos_dim example_arm
              = sum_list (map (getJointDim ?pm) (move_group_user_joints example_arm))"
    by (simp add: example_arm_def example_pinocchio_def)
  have h3: "distinct (move_group_user_joints example_arm)"
    by (simp add: example_arm_def)
  have h4: "\<forall>i\<in>set (move_group_user_joints example_arm).
              getJointId ?pm i + getJointDim ?pm i \<le> length (current_qpos example_arm)"
    by (simp add: example_arm_def example_pinocchio_def)
  have h5: "\<forall>i i'. i \<noteq> i' \<longrightarrow> joint_slots ?pm i \<inter> joint_slots ?pm i' = {}"
    unfolding pm by (rule example_slots_disjoint)
  from setQpos_reduced_scatter[OF h1 h2 h3 h4 h5] obtain m' where
    r: "setQpos [7, 8, 9] False example_arm = (Inr (), m')"
    and l: "length (current_qpos m') = length (current_qpos example_arm)"
    and v: "\<forall>n<length (move_group_user_joints example_arm).
              \<forall>t<getJointDim ?pm (move_group_user_joints example_arm ! n).
                current_qpos m' ! (getJointId ?pm (move_group_user_joints example_arm ! n) + t)
                  = [7, 8, 9] ! (sum_list (map (getJointDim ?pm)
                                   (take n (move_group_user_joints example_arm))) + t)"
    and o: "\<forall>i. i \<notin> set (move_group_user_joints example_arm) \<longrightarrow>
              (\<forall>k\<in>joint_slots ?pm i. k < length (current_qpos example_arm) \<longrightarrow>
                 current_qpos m' ! k = current_qpos example_arm ! k)"
    by blast
  have l': "length (current_qpos m') = 4"
    using l by (simp add: example_arm_def)
  have v0: "current_qpos m' ! 0 = 10"
    using o[rule_format, of 0 0]
    by (simp add: example_arm_def example_pinocchio_def joint_slots_def)
  have v1: "current_qpos m' ! 1 = 7"
    using v[rule_format, of 0 0] by (simp add: example_arm_def example_pinocchio_def)
  have v2: "current_qpos m' ! 2 = 8"
    using v[rule_format, of 0 1]
    by (simp add: example_arm_def example_pinocchio_def numeral_2_eq_2)
  have v3: "current_qpos m' ! 3 = 9"
    using v[rule_format, of 1 0] by (simp add: example_arm_def example_pinocchio_def)
  from h1 r l' v0 v1 v2 v3 show ?thesis by blast
qed

text \<open>
  Claim C4. For a reduced configuration \<open>q\<close> of the move group's dimension,
  \<^verbatim>\<open>setQpos(q, false)\<close> followed by \<^verbatim>\<open>setQpos(F, true)\<close>, where \<open>F\<close> is the full
  configuration stored before the first call, leaves the stored full configuration equal
  to \<open>F\<close>.
\<close>

theorem setQpos_round_trip:
  assumes "length q = qpos_dim m"
    and "setQpos q False m = (Inr (), m1)"
  shows "\<exists>m2. setQpos (current_qpos m) True m1 = (Inr (), m2)
           \<and> current_qpos m2 = current_qpos m"
  by (simp add: setQpos_def setQpos_update_fields)

theorem setQpos_round_trip_witness:
  "length [7, 8, 9 :: int] = qpos_dim example_arm
   \<and> (\<exists>m1 m2. setQpos [7, 8, 9] False example_arm = (Inr (), m1)
         \<and> current_qpos m1 = [10, 7, 8, 9]
         \<and> setQpos (current_qpos example_arm) True m1 = (Inr (), m2)
         \<and> current_qpos m2 = [10, 20, 30, 40])"
proof -
  have h1: "length [7, 8, 9 :: int] = qpos_dim example_arm"
    by (simp add: example_arm_def)
  have js: "setQpos_joints (pinocchio_model example_arm) [7, 8, 9]
              (move_group_user_joints example_arm) (current_qpos example_arm) 0
            = (Inr (), [10, 7, 8, 9], 3)"
    by (simp add: example_arm_def example_pinocchio_def setQpos_joint.simps)
  obtain m1 where h2: "setQpos [7, 8, 9] False example_arm = (Inr (), m1)"
    and c1: "current_qpos m1 = [10, 7, 8, 9]"
    using h1 js by (simp add: setQpos_def ASSERT_def setQpos_update_fields)
  have "current_qpos example_arm = [10, 20, 30, 40]"
    by (simp add: example_arm_def)
  with setQpos_round_trip[OF h1 h2] h1 h2 c1 show ?thesis by metis
qed

text \<open>
  Claim C5. \<^verbatim>\<open>setQpos(q, false)\<close> ends with the runtime error of its \<^verbatim>\<open>ASSERT\<close> exactly
  when the length of \<open>q\<close> differs from \<^verbatim>\<open>qpos_dim_\<close>. The rejected call leaves the whole
  object as it was: the stored configuration, the data of the forward kinematics and the
  poses of the collision model, and neither collaborator has been called.
\<close>

theorem setQpos_size_mismatch:
  "((\<exists>info. fst (setQpos q False m) = Inl (RuntimeError info)) \<longleftrightarrow> length q \<noteq> qpos_dim m)
   \<and> (length q \<noteq> qpos_dim m \<longrightarrow>
        setQpos q False m = (Inl (RuntimeError (setQpos_message (qpos_dim m) (length q))), m))"
proof (cases "length q = qpos_dim m")
  case False
  then show ?thesis by (simp add: setQpos_def ASSERT_def)
next
  case True
  have "fst (setQpos q False m) \<noteq> Inl (RuntimeError info)" for info
    using True setQpos_joints_result[of "pinocchio_model m" q "move_group_user_joints m"
        "current_qpos m" 0]
    by (auto simp: setQpos_def ASSERT_def split: prod.splits sum.splits)
  with True show ?thesis by simp
qed

theorem setQpos_size_mismatch_witness:
  "length [7, 8 :: int] \<noteq> qpos_dim example_arm
   \<and> setQpos [7, 8] False example_arm
       = (Inl (RuntimeError ''Length is not correct, Dim of Q: 3 ,Len of qpos: 2''), example_arm)
   \<and> fk_count (pinocchio_model (snd (setQpos [7, 8] False example_arm))) = 0
   \<and> update_count (fcl_model (snd (setQpos [7, 8] False example_arm))) = 0"
proof -
  have h: "length [7, 8 :: int] \<noteq> qpos_dim example_arm"
    by (simp add: example_arm_def)
  have msg: "setQpos_message (qpos_dim example_arm) (length [7, 8 :: int])
               = ''Length is not correct, Dim of Q: 3 ,Len of qpos: 2''"
    by (simp add: example_arm_def setQpos_message_def to_string.simps)
  have r: "setQpos [7, 8] False example_arm
       = (Inl (RuntimeError ''Length is not correct, Dim of Q: 3 ,Len of qpos: 2''), example_arm)"
    using setQpos_size_mismatch[of "[7, 8]" example_arm] h unfolding msg by blast
  have "fk_count (pinocchio_model example_arm) = 0" "update_count (fcl_model example_arm) = 0"
    by (simp_all add: example_arm_def example_pinocchio_def)
  with h r show ?thesis by simp
qed

text \<open>
  Claim C8. \<^verbatim>\<open>setQpos(q, true)\<close> checks no length: for every \<open>q\<close>, of any length, the
  call does not end with the size-mismatch error and the stored configuration is \<open>q\<close>
  afterwards. Only the path of \<^verbatim>\<open>full = false\<close> checks: there a length other than
  \<^verbatim>\<open>qpos_dim_\<close> is rejected. (What forward kinematics does with a vector of another
  length is the collaborator's matter; here it returns.)
\<close>

theorem setQpos_full_unchecked:
  "(\<forall>info. fst (setQpos q True m) \<noteq> Inl (RuntimeError info))
   \<and> current_qpos (snd (setQpos q True m)) = q
   \<and> (length q \<noteq> qpos_dim m \<longrightarrow> (\<exists>info. fst (setQpos q False m) = Inl (RuntimeError info)))"
  by (simp add: setQpos_def setQpos_update_fields ASSERT_def)

theorem setQpos_full_unchecked_witness:
  "length [5 :: int] \<noteq> length (current_qpos example_arm)
   \<and> length [5 :: int] \<noteq> qpos_dim example_arm
   \<and> fst (setQpos [5] True example_arm) \<noteq> Inl (RuntimeError ''Length is not correct'')
   \<and> current_qpos (snd (setQpos [5] True example_arm)) = [5]
   \<and> (\<exists>info. fst (setQpos [5] False example_arm) = Inl (RuntimeError info))"
proof -
  have "length [5 :: int] \<noteq> length (current_qpos example_arm)"
    and "length [5 :: int] \<noteq> qpos_dim example_arm"
    by (simp_all add: example_arm_def)
  then show ?thesis
    using setQpos_full_unchecked[of "[5]" example_arm] by blast
qed

section \<open>Properties of the KDL model\<close>

subsection \<open>The loops\<close>

lemma chain_joint_idx_set:
  "chain_joint_idx mp segs acc = Inr idx \<Longrightarrow>
   set idx = set acc \<union> {u. \<exists>seg \<in> set segs. getType (getJoint seg) \<noteq> Fixed
                                \<and> mp (getName (getJoint seg)) = Some u}"
proof (induction segs arbitrary: acc)
  case Nil
  then show ?case by simp
next
  case (Cons seg segs)
  show ?case
  proof (cases "getType (getJoint seg) \<noteq> Fixed")
    case False
    with Cons.prems have "chain_joint_idx mp segs acc = Inr idx" by (simp add: Let_def)
    from Cons.IH[OF this] False show ?thesis by auto
  next
    case True
    with Cons.prems obtain u where u: "mp (getName (getJoint seg)) = Some u"
      and r: "chain_joint_idx mp segs (acc @ [u]) = Inr idx"
      by (auto simp: Let_def split: option.splits)
    from Cons.IH[OF r] True u show ?thesis by auto
  qed
qed

lemma chain_joint_idx_length:
  "chain_joint_idx mp segs acc = Inr idx \<Longrightarrow> length idx = length acc + chain_getNrOfJoints segs"
proof (induction segs arbitrary: acc)
  case Nil
  then show ?case by (simp add: chain_getNrOfJoints_def)
next
  case (Cons seg segs)
  show ?case
  proof (cases "getType (getJoint seg) \<noteq> Fixed")
    case False
    with Cons.prems have "chain_joint_idx mp segs acc = Inr idx" by (simp add: Let_def)
    from Cons.IH[OF this] False show ?thesis by (simp add: chain_getNrOfJoints_def)
  next
    case True
    with Cons.prems obtain u where r: "chain_joint_idx mp segs (acc @ [u]) = Inr idx"
      by (auto simp: Let_def split: option.splits)
    from Cons.IH[OF r] True show ?thesis by (simp add: chain_getNrOfJoints_def)
  qed
qed

lemma chain_joint_idx_error:
  "chain_joint_idx mp segs acc = Inl e \<Longrightarrow> e = OutOfRange"
  by (induction segs arbitrary: acc) (auto simp: Let_def split: if_splits option.splits)

lemma gather_loop_error:
  "gather_loop cast q0 idx n i q_init = Inl e \<Longrightarrow> e = IndexOutOfBounds"
proof (induction cast q0 idx n i q_init rule: gather_loop.induct)
  case (1 cast q0 idx n i q_init)
  from "1.prems" show ?case
    by (subst (asm) gather_loop.simps) (auto split: if_splits dest: "1.IH")
qed

lemma gather_loop_in_range:
  "gather_loop cast q0 idx n i q_init = Inr res \<Longrightarrow>
   length res = length q_init \<and> (\<forall>k. i \<le> k \<and> k < n \<longrightarrow> k < length idx \<and> idx ! k < length q0)"
proof (induction cast q0 idx n i q_init rule: gather_loop.induct)
  case (1 cast q0 idx n i q_init)
  show ?case
  proof (cases "i < n")
    case False
    with "1.prems" show ?thesis by (simp add: gather_loop.simps)
  next
    case True
    with "1.prems" have rng: "i < length idx \<and> idx ! i < length q0 \<and> i < length q_init"
      by (subst (asm) gather_loop.simps) (simp split: if_splits)
    with True "1.prems" have
      "gather_loop cast q0 idx n (Suc i) (q_init[i := cast (q0 ! (idx ! i))]) = Inr res"
      by (subst (asm) gather_loop.simps) simp
    from "1.IH"[OF True rng this] have l: "length res = length q_init"
      and ih: "\<forall>k. Suc i \<le> k \<and> k < n \<longrightarrow> k < length idx \<and> idx ! k < length q0"
      by simp_all
    have "k < length idx \<and> idx ! k < length q0" if "i \<le> k" "k < n" for k
    proof (cases "k = i")
      case True
      with rng show ?thesis by simp
    next
      case False
      with that have "Suc i \<le> k" by simp
      with ih that show ?thesis by blast
    qed
    with l show ?thesis by blast
  qed
qed

lemma scatter_loop_error:
  "scatter_loop cast q_sol idx n i q1 = Inl e \<Longrightarrow> e = IndexOutOfBounds"
proof (induction cast q_sol idx n i q1 rule: scatter_loop.induct)
  case (1 cast q_sol idx n i q1)
  from "1.prems" show ?case
    by (subst (asm) scatter_loop.simps) (auto split: if_splits dest: "1.IH")
qed

lemma scatter_loop_frame:
  "scatter_loop cast q_sol idx n i q1 = Inr q1' \<Longrightarrow>
   length q1' = length q1 \<and> (\<forall>k. k \<notin> set idx \<longrightarrow> q1' ! k = q1 ! k)"
proof (induction cast q_sol idx n i q1 rule: scatter_loop.induct)
  case (1 cast q_sol idx n i q1)
  show ?case
  proof (cases "i < n")
    case False
    with "1.prems" show ?thesis by (simp add: scatter_loop.simps)
  next
    case True
    with "1.prems" have rng: "i < length idx \<and> idx ! i < length q1 \<and> i < length q_sol"
      by (subst (asm) scatter_loop.simps) (simp split: if_splits)
    with True "1.prems" have
      "scatter_loop cast q_sol idx n (Suc i) (q1[idx ! i := cast (q_sol ! i)]) = Inr q1'"
      by (subst (asm) scatter_loop.simps) simp
    from "1.IH"[OF True rng this] rng show ?thesis
      by (auto simp: nth_list_update)
  qed
qed

lemma scatter_loop_returns:
  "\<forall>k. i \<le> k \<and> k < n \<longrightarrow> k < length idx \<and> idx ! k < length q1 \<and> k < length q_sol \<Longrightarrow>
   \<exists>q1'. scatter_loop cast q_sol idx n i q1 = Inr q1'"
proof (induction cast q_sol idx n i q1 rule: scatter_loop.induct)
  case (1 cast q_sol idx n i q1)
  show ?case
  proof (cases "i < n")
    case False
    then show ?thesis by (simp add: scatter_loop.simps)
  next
    case True
    with "1.prems" have rng: "i < length idx \<and> idx ! i < length q1 \<and> i < length q_sol"
      by simp
    have "\<forall>k. Suc i \<le> k \<and> k < n \<longrightarrow>
            k < length idx \<and> idx ! k < length (q1[idx ! i := cast (q_sol ! i)]) \<and> k < length q_sol"
      using "1.prems" by simp
    from "1.IH"[OF True rng this] obtain q1' where
      "scatter_loop cast q_sol idx n (Suc i) (q1[idx ! i := cast (q_sol ! i)]) = Inr q1'" by blast
    with True rng show ?thesis by (subst scatter_loop.simps) simp
  qed
qed

lemma limits_loop_error:
  "limits_loop cast qmin qmax idx n i lims = Inl e \<Longrightarrow> e = IndexOutOfBounds"
proof (induction cast qmin qmax idx n i lims rule: limits_loop.induct)
  case (1 cast qmin qmax idx n i q_min q_max)
  from "1.prems" show ?case
    by (subst (asm) limits_loop.simps) (auto split: if_splits dest: "1.IH")
qed

lemma frames_loop_error:
  "frames_loop cast endpoints poses i frames = Inl e \<Longrightarrow> e = IndexOutOfBounds"
proof (induction cast endpoints poses i frames rule: frames_loop.induct)
  case (1 cast endpoints poses i frames)
  from "1.prems" show ?case
    by (subst (asm) frames_loop.simps) (auto split: if_splits dest: "1.IH")
qed

subsection \<open>The functions unfolded\<close>

lemma chainIKLMA_Inr:
  assumes "chainIKLMA lib km index q0 pose = Inr (q1, r)"
  shows "index < length (kdl_user_link_names km) \<and>
    (\<exists>idx q_init q_sol.
       chain_joint_idx (user_joint_idx_mapping km) (target_chain km index) [] = Inr idx
     \<and> gather_loop (S_to_double lib) q0 idx (chain_getNrOfJoints (target_chain km index)) 0
          (replicate (chain_getNrOfJoints (target_chain km index)) 0) = Inr q_init
     \<and> ChainIkSolverPos_LMA lib (target_chain km index) chainIKLMA_L q_init
          (pose_to_frame (S_to_double lib) pose)
          (replicate (chain_getNrOfJoints (target_chain km index)) 0) = (q_sol, r)
     \<and> scatter_loop (double_to_S lib) q_sol idx (chain_getNrOfJoints (target_chain km index)) 0 q0
          = Inr q1)"
  using assms
  by (auto simp: chainIKLMA_def ASSERT_def Let_def split: sum.splits prod.splits if_splits)

lemma chainIKNR_Inr:
  assumes "chainIKNR lib km index q0 pose = Inr (q1, r)"
  shows "index < length (kdl_user_link_names km) \<and>
    (\<exists>idx q_init q_sol.
       chain_joint_idx (user_joint_idx_mapping km) (target_chain km index) [] = Inr idx
     \<and> gather_loop (S_to_double lib) q0 idx (chain_getNrOfJoints (target_chain km index)) 0
          (replicate (chain_getNrOfJoints (target_chain km index)) 0) = Inr q_init
     \<and> ChainIkSolverPos_NR lib (target_chain km index) q_init
          (pose_to_frame (S_to_double lib) pose)
          (replicate (chain_getNrOfJoints (target_chain km index)) 0) = (q_sol, r)
     \<and> scatter_loop (double_to_S lib) q_sol idx (chain_getNrOfJoints (target_chain km index)) 0 q0
          = Inr q1)"
  using assms
  by (auto simp: chainIKNR_def ASSERT_def Let_def split: sum.splits prod.splits if_splits)

lemma chainIKNRJL_Inr:
  assumes "chainIKNRJL lib km index q0 pose qmin qmax = Inr (q1, r)"
  shows "index < length (kdl_user_link_names km) \<and>
    (\<exists>idx q_min q_max q_init q_sol.
       chain_joint_idx (user_joint_idx_mapping km) (target_chain km index) [] = Inr idx
     \<and> limits_loop (S_to_double lib) qmin qmax idx (chain_getNrOfJoints (target_chain km index)) 0
          (replicate (chain_getNrOfJoints (target_chain km index)) 0,
           replicate (chain_getNrOfJoints (target_chain km index)) 0) = Inr (q_min, q_max)
     \<and> gather_loop (S_to_double lib) q0 idx (chain_getNrOfJoints (target_chain km index)) 0
          (replicate (chain_getNrOfJoints (target_chain km index)) 0) = Inr q_init
     \<and> ChainIkSolverPos_NR_JL lib (target_chain km index) q_min q_max q_init
          (pose_to_frame (S_to_double lib) pose)
          (replicate (chain_getNrOfJoints (target_chain km index)) 0) = (q_sol, r)
     \<and> scatter_loop (double_to_S lib) q_sol idx (chain_getNrOfJoints (target_chain km index)) 0 q0
          = Inr q1)"
  using assms
  by (auto simp: chainIKNRJL_def ASSERT_def Let_def split: sum.splits prod.splits if_splits)

lemma TreeIKNRJL_Inr:
  assumes "TreeIKNRJL lib km endpoints q0 poses qmin qmax = Inr (q1, r)"
  shows "\<exists>q_min q_max frames q_init q_sol retval.
       limits_loop (S_to_double lib) qmin qmax (joint_mapping_kdl_2_user km)
          (getNrOfJoints (tree km)) 0
          (replicate (getNrOfJoints (tree km)) 0, replicate (getNrOfJoints (tree km)) 0)
          = Inr (q_min, q_max)
     \<and> frames_loop (S_to_double lib) endpoints poses 0 Map.empty = Inr frames
     \<and> gather_loop (S_to_double lib) q0 (joint_mapping_kdl_2_user km) (getNrOfJoints (tree km)) 0
          (replicate (getNrOfJoints (tree km)) 0) = Inr q_init
     \<and> TreeIkSolverPos_NR_JL lib (tree km) endpoints q_min q_max q_init frames
          (replicate (getNrOfJoints (tree km)) 0) = (q_sol, retval)
     \<and> scatter_loop (double_to_S lib) q_sol (joint_mapping_kdl_2_user km)
          (getNrOfJoints (tree km)) 0 q0 = Inr q1
     \<and> double_to_int retval = Inr r"
  using assms
  by (auto simp: TreeIKNRJL_def Let_def split: sum.splits prod.splits if_splits)

lemma double_trunc_is_int:
  assumes "double_is_int (Finite m e) k"
  shows "double_trunc m e = k"
proof (cases "0 \<le> e")
  case True
  with assms show ?thesis by (simp add: double_is_int_def double_trunc_def)
next
  case False
  with assms have m: "m = k * 2 ^ nat (- e)" by (simp add: double_is_int_def)
  have p: "(0::int) < 2 ^ nat (- e)" by simp
  show ?thesis
  proof (cases "0 \<le> m")
    case True
    with False m show ?thesis by (simp add: double_trunc_def)
  next
    case neg: False
    have "- m = (- k) * 2 ^ nat (- e)" using m by simp
    then have "(- m) div 2 ^ nat (- e) = - k" using p by (metis nonzero_mult_div_cancel_right less_irrefl)
    with False neg show ?thesis by (simp add: double_trunc_def)
  qed
qed

lemma double_to_int_is_int:
  "double_to_int d = Inr r \<Longrightarrow> double_is_int d k \<Longrightarrow> r = k"
  by (cases d) (auto simp: double_to_int_def Let_def double_trunc_is_int split: if_splits
      simp: double_is_int_def[of NotFinite])

lemma double_is_int_to_int:
  "double_is_int d k \<Longrightarrow> - (2 ^ 31) \<le> k \<Longrightarrow> k < 2 ^ 31 \<Longrightarrow> double_to_int d = Inr k"
  by (cases d) (auto simp: double_to_int_def Let_def double_trunc_is_int
      simp: double_is_int_def[of NotFinite])

lemma gather_then_scatter:
  assumes g: "gather_loop cast q0 idx n 0 q_init = Inr res"
    and l: "length q_sol = n"
  shows "\<exists>q1. scatter_loop cast' q_sol idx n 0 q0 = Inr q1"
proof -
  from gather_loop_in_range[OF g]
  have "\<forall>k. 0 \<le> k \<and> k < n \<longrightarrow> k < length idx \<and> idx ! k < length q0" by simp
  with l have "\<forall>k. 0 \<le> k \<and> k < n \<longrightarrow> k < length idx \<and> idx ! k < length q0 \<and> k < length q_sol"
    by simp
  from scatter_loop_returns[OF this] show ?thesis .
qed

lemma chainIKLMA_returns:
  assumes "index < length (kdl_user_link_names km)"
    and "chain_joint_idx (user_joint_idx_mapping km) (target_chain km index) [] = Inr idx"
    and g: "gather_loop (S_to_double lib) q0 idx (chain_getNrOfJoints (target_chain km index)) 0
          (replicate (chain_getNrOfJoints (target_chain km index)) 0) = Inr q_init"
    and "ChainIkSolverPos_LMA lib (target_chain km index) chainIKLMA_L q_init
          (pose_to_frame (S_to_double lib) pose)
          (replicate (chain_getNrOfJoints (target_chain km index)) 0) = (q_sol, s)"
    and l: "length q_sol = chain_getNrOfJoints (target_chain km index)"
  shows "\<exists>q1. scatter_loop (double_to_S lib) q_sol idx
                (chain_getNrOfJoints (target_chain km index)) 0 q0 = Inr q1
              \<and> chainIKLMA lib km index q0 pose = Inr (q1, s)"
proof -
  from gather_then_scatter[OF g l] obtain q1 where
    "scatter_loop (double_to_S lib) q_sol idx (chain_getNrOfJoints (target_chain km index)) 0 q0
       = Inr q1" by blast
  with assms show ?thesis
    by (simp add: chainIKLMA_def ASSERT_def Let_def)
qed

lemma chainIKNR_returns:
  assumes "index < length (kdl_user_link_names km)"
    and "chain_joint_idx (user_joint_idx_mapping km) (target_chain km index) [] = Inr idx"
    and g: "gather_loop (S_to_double lib) q0 idx (chain_getNrOfJoints (target_chain km index)) 0
          (replicate (chain_getNrOfJoints (target_chain km index)) 0) = Inr q_init"
    and "ChainIkSolverPos_NR lib (target_chain km index) q_init
          (pose_to_frame (S_to_double lib) pose)
          (replicate (chain_getNrOfJoints (target_chain km index)) 0) = (q_sol, s)"
    and l: "length q_sol = chain_getNrOfJoints (target_chain km index)"
  shows "\<exists>q1. scatter_loop (double_to_S lib) q_sol idx
                (chain_getNrOfJoints (target_chain km index)) 0 q0 = Inr q1
              \<and> chainIKNR lib km index q0 pose = Inr (q1, s)"
proof -
  from gather_then_scatter[OF g l] obtain q1 where
    "scatter_loop (double_to_S lib) q_sol idx (chain_getNrOfJoints (target_chain km index)) 0 q0
       = Inr q1" by blast
  with assms show ?thesis
    by (simp add: chainIKNR_def ASSERT_def Let_def)
qed

lemma chainIKNRJL_returns:
  assumes "index < length (kdl_user_link_names km)"
    and "chain_joint_idx (user_joint_idx_mapping km) (target_chain km index) [] = Inr idx"
    and "limits_loop (S_to_double lib) qmin qmax idx (chain_getNrOfJoints (target_chain km index)) 0
          (replicate (chain_getNrOfJoints (target_chain km index)) 0,
           replicate (chain_getNrOfJoints (target_chain km index)) 0) = Inr (q_min, q_max)"
    and g: "gather_loop (S_to_double lib) q0 idx (chain_getNrOfJoints (target_chain km index)) 0
          (replicate (chain_getNrOfJoints (target_chain km index)) 0) = Inr q_init"
    and "ChainIkSolverPos_NR_JL lib (target_chain km index) q_min q_max q_init
          (pose_to_frame (S_to_double lib) pose)
          (replicate (chain_getNrOfJoints (target_chain km index)) 0) = (q_sol, s)"
    and l: "length q_sol = chain_getNrOfJoints (target_chain km index)"
  shows "\<exists>q1. scatter_loop (double_to_S lib) q_sol idx
                (chain_getNrOfJoints (target_chain km index)) 0 q0 = Inr q1
              \<and> chainIKNRJL lib km index q0 pose qmin qmax = Inr (q1, s)"
proof -
  from gather_then_scatter[OF g l] obtain q1 where
    "scatter_loop (double_to_S lib) q_sol idx (chain_getNrOfJoints (target_chain km index)) 0 q0
       = Inr q1" by blast
  with assms show ?thesis
    by (simp add: chainIKNRJL_def ASSERT_def Let_def)
qed

lemma TreeIKNRJL_returns:
  assumes "limits_loop (S_to_double lib) qmin qmax (joint_mapping_kdl_2_user km)
          (getNrOfJoints (tree km)) 0
          (replicate (getNrOfJoints (tree km)) 0, replicate (getNrOfJoints (tree km)) 0)
          = Inr (q_min, q_max)"
    and "frames_loop (S_to_double lib) endpoints poses 0 Map.empty = Inr frames"
    and g: "gather_loop (S_to_double lib) q0 (joint_mapping_kdl_2_user km) (getNrOfJoints (tree km)) 0
          (replicate (getNrOfJoints (tree km)) 0) = Inr q_init"
    and "TreeIkSolverPos_NR_JL lib (tree km) endpoints q_min q_max q_init frames
          (replicate (getNrOfJoints (tree km)) 0) = (q_sol, retval)"
    and l: "length q_sol = getNrOfJoints (tree km)"
    and "double_to_int retval = Inr r"
  shows "\<exists>q1. scatter_loop (double_to_S lib) q_sol (joint_mapping_kdl_2_user km)
                (getNrOfJoints (tree km)) 0 q0 = Inr q1
              \<and> TreeIKNRJL lib km endpoints q0 poses qmin qmax = Inr (q1, r)"
proof -
  from gather_then_scatter[OF g l] obtain q1 where
    "scatter_loop (double_to_S lib) q_sol (joint_mapping_kdl_2_user km)
       (getNrOfJoints (tree km)) 0 q0 = Inr q1" by blast
  with assms show ?thesis
    by (simp add: TreeIKNRJL_def Let_def)
qed

subsection \<open>The link index check\<close>

lemma chainIK_in_bounds_no_runtime_error:
  assumes "index < length (kdl_user_link_names km)"
  shows "chainIKLMA lib km index q0 pose \<noteq> Inl (RuntimeError info)"
    and "chainIKNR lib km index q0 pose \<noteq> Inl (RuntimeError info)"
    and "chainIKNRJL lib km index q0 pose qmin qmax \<noteq> Inl (RuntimeError info)"
  using assms
  by (auto simp: chainIKLMA_def chainIKNR_def chainIKNRJL_def ASSERT_def Let_def
      split: sum.splits prod.splits
      dest!: chain_joint_idx_error gather_loop_error scatter_loop_error limits_loop_error)

text \<open>
  Claim C10. Each of \<^verbatim>\<open>chainIKLMA\<close>, \<^verbatim>\<open>chainIKNR\<close> and \<^verbatim>\<open>chainIKNRJL\<close> ends with
  the runtime error "link index out of bound" whenever the link index is not below the
  number of user link names, whatever the library, the seed and the pose are: the check
  comes before any solver is built and before the seed is read. For an index in bounds
  none of them ends with a runtime error.
\<close>

theorem chainIK_link_index_out_of_bound:
  "(length (kdl_user_link_names km) \<le> index \<longrightarrow>
      chainIKLMA lib km index q0 pose = Inl (RuntimeError ''link index out of bound'')
    \<and> chainIKNR lib km index q0 pose = Inl (RuntimeError ''link index out of bound'')
    \<and> chainIKNRJL lib km index q0 pose qmin qmax = Inl (RuntimeError ''link index out of bound''))
   \<and> (index < length (kdl_user_link_names km) \<longrightarrow>
        (\<forall>info. chainIKLMA lib km index q0 pose \<noteq> Inl (RuntimeError info)
              \<and> chainIKNR lib km index q0 pose \<noteq> Inl (RuntimeError info)
              \<and> chainIKNRJL lib km index q0 pose qmin qmax \<noteq> Inl (RuntimeError info)))"
proof (intro conjI impI allI)
  assume "length (kdl_user_link_names km) \<le> index"
  then show "chainIKLMA lib km index q0 pose = Inl (RuntimeError ''link index out of bound'')"
    "chainIKNR lib km index q0 pose = Inl (RuntimeError ''link index out of bound'')"
    "chainIKNRJL lib km index q0 pose qmin qmax = Inl (RuntimeError ''link index out of bound'')"
    by (simp_all add: chainIKLMA_def chainIKNR_def chainIKNRJL_def ASSERT_def)
next
  fix info
  assume "index < length (kdl_user_link_names km)"
  then show "chainIKLMA lib km index q0 pose \<noteq> Inl (RuntimeError info)"
    "chainIKNR lib km index q0 pose \<noteq> Inl (RuntimeError info)"
    "chainIKNRJL lib km index q0 pose qmin qmax \<noteq> Inl (RuntimeError info)"
    by (rule chainIK_in_bounds_no_runtime_error)+
qed

theorem chainIK_link_index_out_of_bound_witness:
  "length (kdl_user_link_names example_kdl) \<le> 3
   \<and> chainIKNR example_library example_kdl 3 [10, 20, 30] example_pose
       = Inl (RuntimeError ''link index out of bound'')
   \<and> 2 < length (kdl_user_link_names example_kdl)
   \<and> chainIKNR example_library example_kdl 2 [10, 20, 30] example_pose
       \<noteq> Inl (RuntimeError ''link index out of bound'')"
proof -
  have a: "length (kdl_user_link_names example_kdl) \<le> 3"
    and b: "2 < length (kdl_user_link_names example_kdl)"
    by (simp_all add: example_kdl_def)
  from a chainIK_link_index_out_of_bound[of example_kdl 3 example_library "[10, 20, 30]" example_pose]
  have "chainIKNR example_library example_kdl 3 [10, 20, 30] example_pose
       = Inl (RuntimeError ''link index out of bound'')" by blast
  moreover from b chainIK_link_index_out_of_bound[of example_kdl 2 example_library "[10, 20, 30]" example_pose]
  have "chainIKNR example_library example_kdl 2 [10, 20, 30] example_pose
       \<noteq> Inl (RuntimeError ''link index out of bound'')" by blast
  ultimately show ?thesis using a b by blast
qed

subsection \<open>The seed outside the chain\<close>

text \<open>
  Claim C9. Whenever \<^verbatim>\<open>chainIKLMA\<close>, \<^verbatim>\<open>chainIKNR\<close> or \<^verbatim>\<open>chainIKNRJL\<close> returns a
  configuration, it has the length of the seed \<open>q0\<close> and equals the seed at every index
  that is not the user index of a non-fixed joint on the chain from the root to the target
  link.
\<close>

theorem chainIK_frame:
  "(\<forall>q1 r. chainIKLMA lib km index q0 pose = Inr (q1, r) \<longrightarrow>
      length q1 = length q0
      \<and> (\<forall>k<length q0. k \<notin> chain_user_joints km index \<longrightarrow> q1 ! k = q0 ! k))
   \<and> (\<forall>q1 r. chainIKNR lib km index q0 pose = Inr (q1, r) \<longrightarrow>
      length q1 = length q0
      \<and> (\<forall>k<length q0. k \<notin> chain_user_joints km index \<longrightarrow> q1 ! k = q0 ! k))
   \<and> (\<forall>q1 r. chainIKNRJL lib km index q0 pose qmin qmax = Inr (q1, r) \<longrightarrow>
      length q1 = length q0
      \<and> (\<forall>k<length q0. k \<notin> chain_user_joints km index \<longrightarrow> q1 ! k = q0 ! k))"
proof -
  have fr: "length q1 = length q0
      \<and> (\<forall>k<length q0. k \<notin> chain_user_joints km index \<longrightarrow> q1 ! k = q0 ! k)"
    if i: "chain_joint_idx (user_joint_idx_mapping km) (target_chain km index) [] = Inr idx"
      and s: "scatter_loop cast q_sol idx n 0 q0 = Inr q1"
    for idx :: "nat list" and cast :: "'b \<Rightarrow> 'a" and q_sol n q1
  proof -
    from chain_joint_idx_set[OF i] have "set idx = chain_user_joints km index"
      by (simp add: chain_user_joints_def)
    with scatter_loop_frame[OF s] show ?thesis by simp
  qed
  show ?thesis
  proof (intro conjI allI impI)
    fix q1 r
    assume "chainIKLMA lib km index q0 pose = Inr (q1, r)"
    from chainIKLMA_Inr[OF this] fr
    show "length q1 = length q0"
      "\<And>k. k < length q0 \<Longrightarrow> k \<notin> chain_user_joints km index \<Longrightarrow> q1 ! k = q0 ! k"
      by blast+
  next
    fix q1 r
    assume "chainIKNR lib km index q0 pose = Inr (q1, r)"
    from chainIKNR_Inr[OF this] fr
    show "length q1 = length q0"
      "\<And>k. k < length q0 \<Longrightarrow> k \<notin> chain_user_joints km index \<Longrightarrow> q1 ! k = q0 ! k"
      by blast+
  next
    fix q1 r
    assume "chainIKNRJL lib km index q0 pose qmin qmax = Inr (q1, r)"
    from chainIKNRJL_Inr[OF this] fr
    show "length q1 = length q0"
      "\<And>k. k < length q0 \<Longrightarrow> k \<notin> chain_user_joints km index \<Longrightarrow> q1 ! k = q0 ! k"
      by blast+
  qed
qed

lemma example_chainIKLMA:
  "chainIKLMA example_library example_kdl 2 [10, 20, 30] example_pose = Inr ([10, 21, 31], - 1)"
  by code_simp

lemma example_chainIKNR:
  "chainIKNR example_library example_kdl 2 [10, 20, 30] example_pose = Inr ([10, 22, 32], - 5)"
  by code_simp

lemma example_chainIKNRJL:
  "chainIKNRJL example_library example_kdl 2 [10, 20, 30] example_pose [0, 1, 2] [50, 60, 70]
     = Inr ([10, 60, 70], 0)"
  by code_simp

lemma example_chain_user_joints: "0 \<notin> chain_user_joints example_kdl 2"
  by (auto simp: chain_user_joints_def example_kdl_def example_tree_def example_segment_def)

theorem chainIK_frame_witness:
  "\<exists>q1 r. chainIKLMA example_library example_kdl 2 [10, 20, 30] example_pose = Inr (q1, r)
     \<and> 0 \<notin> chain_user_joints example_kdl 2 \<and> length q1 = 3 \<and> q1 ! 0 = 10"
proof -
  from chainIK_frame[of example_library example_kdl 2 "[10, 20, 30]" example_pose]
  have "\<forall>q1 r. chainIKLMA example_library example_kdl 2 [10, 20, 30] example_pose = Inr (q1, r) \<longrightarrow>
      length q1 = length [10, 20, 30 :: int]
      \<and> (\<forall>k<length [10, 20, 30 :: int]. k \<notin> chain_user_joints example_kdl 2
           \<longrightarrow> q1 ! k = [10, 20, 30] ! k)"
    by blast
  with example_chainIKLMA example_chain_user_joints
  have "length [10, 21, 31 :: int] = 3 \<and> [10, 21, 31 :: int] ! 0 = 10"
    by simp
  with example_chainIKLMA example_chain_user_joints show ?thesis by blast
qed


subsection \<open>The status code\<close>

text \<open>
  Claim C6, as amended. Each of \<^verbatim>\<open>chainIKLMA\<close>, \<^verbatim>\<open>chainIKNR\<close> and \<^verbatim>\<open>chainIKNRJL\<close> gives,
  as the second component of what it returns, the status code that its solver's
  \<^verbatim>\<open>CartToJnt\<close> returned on the seed gathered from \<open>q0\<close>, unmodified, next to the
  configuration scattered from the solver's joint array. \<^verbatim>\<open>TreeIKNRJL\<close> gives the value
  its solver's \<^verbatim>\<open>CartToJnt\<close> returned converted from \<^verbatim>\<open>double\<close> to \<^verbatim>\<open>int\<close>, that is
  truncated toward zero: a value that is an integer (zero and the negative error codes)
  comes out unchanged, any other loses its fraction. In all four functions the value is
  returned whatever it is, also when it reports no convergence, and nothing is raised for
  it, once the steps before the solver have passed and the solver has left the joint array
  at its size (and, for the tree solver, the truncated value is one of \<^verbatim>\<open>int\<close>).
\<close>

theorem ik_status_passthrough:
  fixes lib :: "('a, 'd::zero) kdl_library" and km :: kdl_model and index :: nat
    and q0 qmin qmax :: "'a list" and pose :: "'a vector7"
    and endpoints :: "string list" and poses :: "'a vector7 list"
  defines "cast \<equiv> S_to_double lib"
    and "back \<equiv> double_to_S lib"
    and "chain \<equiv> target_chain km index"
    and "goal \<equiv> pose_to_frame (S_to_double lib) pose"
    and "n \<equiv> chain_getNrOfJoints (target_chain km index)"
    and "user_idx \<equiv> chain_joint_idx (user_joint_idx_mapping km) (target_chain km index) []"
    and "kdl2user \<equiv> joint_mapping_kdl_2_user km"
    and "tn \<equiv> getNrOfJoints (tree km)"
  shows
  "(\<forall>q1 r. chainIKLMA lib km index q0 pose = Inr (q1, r) \<longrightarrow>
      (\<exists>idx q_init q_sol.
         user_idx = Inr idx
       \<and> gather_loop cast q0 idx n 0 (replicate n 0) = Inr q_init
       \<and> ChainIkSolverPos_LMA lib chain chainIKLMA_L q_init goal (replicate n 0) = (q_sol, r)
       \<and> scatter_loop back q_sol idx n 0 q0 = Inr q1))
   \<and> (\<forall>q1 r. chainIKNR lib km index q0 pose = Inr (q1, r) \<longrightarrow>
      (\<exists>idx q_init q_sol.
         user_idx = Inr idx
       \<and> gather_loop cast q0 idx n 0 (replicate n 0) = Inr q_init
       \<and> ChainIkSolverPos_NR lib chain q_init goal (replicate n 0) = (q_sol, r)
       \<and> scatter_loop back q_sol idx n 0 q0 = Inr q1))
   \<and> (\<forall>q1 r. chainIKNRJL lib km index q0 pose qmin qmax = Inr (q1, r) \<longrightarrow>
      (\<exists>idx q_min q_max q_init q_sol.
         user_idx = Inr idx
       \<and> limits_loop cast qmin qmax idx n 0 (replicate n 0, replicate n 0) = Inr (q_min, q_max)
       \<and> gather_loop cast q0 idx n 0 (replicate n 0) = Inr q_init
       \<and> ChainIkSolverPos_NR_JL lib chain q_min q_max q_init goal (replicate n 0) = (q_sol, r)
       \<and> scatter_loop back q_sol idx n 0 q0 = Inr q1))
   \<and> (\<forall>q1 r. TreeIKNRJL lib km endpoints q0 poses qmin qmax = Inr (q1, r) \<longrightarrow>
      (\<exists>q_min q_max frames q_init q_sol retval.
         limits_loop cast qmin qmax kdl2user tn 0 (replicate tn 0, replicate tn 0)
           = Inr (q_min, q_max)
       \<and> frames_loop cast endpoints poses 0 Map.empty = Inr frames
       \<and> gather_loop cast q0 kdl2user tn 0 (replicate tn 0) = Inr q_init
       \<and> TreeIkSolverPos_NR_JL lib (tree km) endpoints q_min q_max q_init frames (replicate tn 0)
           = (q_sol, retval)
       \<and> scatter_loop back q_sol kdl2user tn 0 q0 = Inr q1
       \<and> double_to_int retval = Inr r
       \<and> (\<forall>k. double_is_int retval k \<longrightarrow> r = k)))
   \<and> (\<forall>idx q_init q_sol s.
        index < length (kdl_user_link_names km)
      \<and> user_idx = Inr idx
      \<and> gather_loop cast q0 idx n 0 (replicate n 0) = Inr q_init
      \<and> ChainIkSolverPos_LMA lib chain chainIKLMA_L q_init goal (replicate n 0) = (q_sol, s)
      \<and> length q_sol = n
      \<longrightarrow> (\<exists>q1. scatter_loop back q_sol idx n 0 q0 = Inr q1
               \<and> chainIKLMA lib km index q0 pose = Inr (q1, s)))
   \<and> (\<forall>idx q_init q_sol s.
        index < length (kdl_user_link_names km)
      \<and> user_idx = Inr idx
      \<and> gather_loop cast q0 idx n 0 (replicate n 0) = Inr q_init
      \<and> ChainIkSolverPos_NR lib chain q_init goal (replicate n 0) = (q_sol, s)
      \<and> length q_sol = n
      \<longrightarrow> (\<exists>q1. scatter_loop back q_sol idx n 0 q0 = Inr q1
               \<and> chainIKNR lib km index q0 pose = Inr (q1, s)))
   \<and> (\<forall>idx q_min q_max q_init q_sol s.
        index < length (kdl_user_link_names km)
      \<and> user_idx = Inr idx
      \<and> limits_loop cast qmin qmax idx n 0 (replicate n 0, replicate n 0) = Inr (q_min, q_max)
      \<and> gather_loop cast q0 idx n 0 (replicate n 0) = Inr q_init
      \<and> ChainIkSolverPos_NR_JL lib chain q_min q_max q_init goal (replicate n 0) = (q_sol, s)
      \<and> length q_sol = n
      \<longrightarrow> (\<exists>q1. scatter_loop back q_sol idx n 0 q0 = Inr q1
               \<and> chainIKNRJL lib km index q0 pose qmin qmax = Inr (q1, s)))
   \<and> (\<forall>q_min q_max frames q_init q_sol retval r.
        limits_loop cast qmin qmax kdl2user tn 0 (replicate tn 0, replicate tn 0)
          = Inr (q_min, q_max)
      \<and> frames_loop cast endpoints poses 0 Map.empty = Inr frames
      \<and> gather_loop cast q0 kdl2user tn 0 (replicate tn 0) = Inr q_init
      \<and> TreeIkSolverPos_NR_JL lib (tree km) endpoints q_min q_max q_init frames (replicate tn 0)
          = (q_sol, retval)
      \<and> length q_sol = tn
      \<and> double_to_int retval = Inr r
      \<longrightarrow> (\<exists>q1. scatter_loop back q_sol kdl2user tn 0 q0 = Inr q1
               \<and> TreeIKNRJL lib km endpoints q0 poses qmin qmax = Inr (q1, r)))
   \<and> (\<forall>q_min q_max frames q_init q_sol retval k.
        limits_loop cast qmin qmax kdl2user tn 0 (replicate tn 0, replicate tn 0)
          = Inr (q_min, q_max)
      \<and> frames_loop cast endpoints poses 0 Map.empty = Inr frames
      \<and> gather_loop cast q0 kdl2user tn 0 (replicate tn 0) = Inr q_init
      \<and> TreeIkSolverPos_NR_JL lib (tree km) endpoints q_min q_max q_init frames (replicate tn 0)
          = (q_sol, retval)
      \<and> length q_sol = tn
      \<and> double_is_int retval k \<and> - (2 ^ 31) \<le> k \<and> k < 2 ^ 31
      \<longrightarrow> (\<exists>q1. scatter_loop back q_sol kdl2user tn 0 q0 = Inr q1
               \<and> TreeIKNRJL lib km endpoints q0 poses qmin qmax = Inr (q1, k)))"
proof (intro conjI allI impI)
  fix q1 r
  assume "chainIKLMA lib km index q0 pose = Inr (q1, r)"
  from chainIKLMA_Inr[OF this]
  show "\<exists>idx q_init q_sol.
         user_idx = Inr idx
       \<and> gather_loop cast q0 idx n 0 (replicate n 0) = Inr q_init
       \<and> ChainIkSolverPos_LMA lib chain chainIKLMA_L q_init goal (replicate n 0) = (q_sol, r)
       \<and> scatter_loop back q_sol idx n 0 q0 = Inr q1"
    unfolding cast_def back_def chain_def goal_def n_def user_idx_def by blast
next
  fix q1 r
  assume "chainIKNR lib km index q0 pose = Inr (q1, r)"
  from chainIKNR_Inr[OF this]
  show "\<exists>idx q_init q_sol.
         user_idx = Inr idx
       \<and> gather_loop cast q0 idx n 0 (replicate n 0) = Inr q_init
       \<and> ChainIkSolverPos_NR lib chain q_init goal (replicate n 0) = (q_sol, r)
       \<and> scatter_loop back q_sol idx n 0 q0 = Inr q1"
    unfolding cast_def back_def chain_def goal_def n_def user_idx_def by blast
next
  fix q1 r
  assume "chainIKNRJL lib km index q0 pose qmin qmax = Inr (q1, r)"
  from chainIKNRJL_Inr[OF this]
  show "\<exists>idx q_min q_max q_init q_sol.
         user_idx = Inr idx
       \<and> limits_loop cast qmin qmax idx n 0 (replicate n 0, replicate n 0) = Inr (q_min, q_max)
       \<and> gather_loop cast q0 idx n 0 (replicate n 0) = Inr q_init
       \<and> ChainIkSolverPos_NR_JL lib chain q_min q_max q_init goal (replicate n 0) = (q_sol, r)
       \<and> scatter_loop back q_sol idx n 0 q0 = Inr q1"
    unfolding cast_def back_def chain_def goal_def n_def user_idx_def by blast
next
  fix q1 r
  assume "TreeIKNRJL lib km endpoints q0 poses qmin qmax = Inr (q1, r)"
  from TreeIKNRJL_Inr[OF this] obtain q_min q_max frames q_init q_sol retval where
    t: "limits_loop cast qmin qmax kdl2user tn 0 (replicate tn 0, replicate tn 0)
           = Inr (q_min, q_max)"
      "frames_loop cast endpoints poses 0 Map.empty = Inr frames"
      "gather_loop cast q0 kdl2user tn 0 (replicate tn 0) = Inr q_init"
      "TreeIkSolverPos_NR_JL lib (tree km) endpoints q_min q_max q_init frames (replicate tn 0)
           = (q_sol, retval)"
      "scatter_loop back q_sol kdl2user tn 0 q0 = Inr q1"
      "double_to_int retval = Inr r"
    unfolding cast_def back_def kdl2user_def tn_def by blast
  from t(6) have "\<forall>k. double_is_int retval k \<longrightarrow> r = k"
    using double_to_int_is_int by blast
  with t show "\<exists>q_min q_max frames q_init q_sol retval.
         limits_loop cast qmin qmax kdl2user tn 0 (replicate tn 0, replicate tn 0)
           = Inr (q_min, q_max)
       \<and> frames_loop cast endpoints poses 0 Map.empty = Inr frames
       \<and> gather_loop cast q0 kdl2user tn 0 (replicate tn 0) = Inr q_init
       \<and> TreeIkSolverPos_NR_JL lib (tree km) endpoints q_min q_max q_init frames (replicate tn 0)
           = (q_sol, retval)
       \<and> scatter_loop back q_sol kdl2user tn 0 q0 = Inr q1
       \<and> double_to_int retval = Inr r
       \<and> (\<forall>k. double_is_int retval k \<longrightarrow> r = k)"
    by blast
next
  fix idx q_init q_sol s
  assume "index < length (kdl_user_link_names km)
      \<and> user_idx = Inr idx
      \<and> gather_loop cast q0 idx n 0 (replicate n 0) = Inr q_init
      \<and> ChainIkSolverPos_LMA lib chain chainIKLMA_L q_init goal (replicate n 0) = (q_sol, s)
      \<and> length q_sol = n"
  then show "\<exists>q1. scatter_loop back q_sol idx n 0 q0 = Inr q1
               \<and> chainIKLMA lib km index q0 pose = Inr (q1, s)"
    unfolding cast_def back_def chain_def goal_def n_def user_idx_def
    using chainIKLMA_returns by blast
next
  fix idx q_init q_sol s
  assume "index < length (kdl_user_link_names km)
      \<and> user_idx = Inr idx
      \<and> gather_loop cast q0 idx n 0 (replicate n 0) = Inr q_init
      \<and> ChainIkSolverPos_NR lib chain q_init goal (replicate n 0) = (q_sol, s)
      \<and> length q_sol = n"
  then show "\<exists>q1. scatter_loop back q_sol idx n 0 q0 = Inr q1
               \<and> chainIKNR lib km index q0 pose = Inr (q1, s)"
    unfolding cast_def back_def chain_def goal_def n_def user_idx_def
    using chainIKNR_returns by blast
next
  fix idx q_min q_max q_init q_sol s
  assume "index < length (kdl_user_link_names km)
      \<and> user_idx = Inr idx
      \<and> limits_loop cast qmin qmax idx n 0 (replicate n 0, replicate n 0) = Inr (q_min, q_max)
      \<and> gather_loop cast q0 idx n 0 (replicate n 0) = Inr q_init
      \<and> ChainIkSolverPos_NR_JL lib chain q_min q_max q_init goal (replicate n 0) = (q_sol, s)
      \<and> length q_sol = n"
  then show "\<exists>q1. scatter_loop back q_sol idx n 0 q0 = Inr q1
               \<and> chainIKNRJL lib km index q0 pose qmin qmax = Inr (q1, s)"
    unfolding cast_def back_def chain_def goal_def n_def user_idx_def
    using chainIKNRJL_returns by blast
next
  fix q_min q_max frames q_init q_sol retval r
  assume "limits_loop cast qmin qmax kdl2user tn 0 (replicate tn 0, replicate tn 0)
          = Inr (q_min, q_max)
      \<and> frames_loop cast endpoints poses 0 Map.empty = Inr frames
      \<and> gather_loop cast q0 kdl2user tn 0 (replicate tn 0) = Inr q_init
      \<and> TreeIkSolverPos_NR_JL lib (tree km) endpoints q_min q_max q_init frames (replicate tn 0)
          = (q_sol, retval)
      \<and> length q_sol = tn
      \<and> double_to_int retval = Inr r"
  then show "\<exists>q1. scatter_loop back q_sol kdl2user tn 0 q0 = Inr q1
               \<and> TreeIKNRJL lib km endpoints q0 poses qmin qmax = Inr (q1, r)"
    unfolding cast_def back_def kdl2user_def tn_def
    using TreeIKNRJL_returns by blast
next
  fix q_min q_max frames q_init q_sol retval k
  assume a: "limits_loop cast qmin qmax kdl2user tn 0 (replicate tn 0, replicate tn 0)
          = Inr (q_min, q_max)
      \<and> frames_loop cast endpoints poses 0 Map.empty = Inr frames
      \<and> gather_loop cast q0 kdl2user tn 0 (replicate tn 0) = Inr q_init
      \<and> TreeIkSolverPos_NR_JL lib (tree km) endpoints q_min q_max q_init frames (replicate tn 0)
          = (q_sol, retval)
      \<and> length q_sol = tn
      \<and> double_is_int retval k \<and> - (2 ^ 31) \<le> k \<and> k < 2 ^ 31"
  then have "double_to_int retval = Inr k"
    using double_is_int_to_int by blast
  with a show "\<exists>q1. scatter_loop back q_sol kdl2user tn 0 q0 = Inr q1
               \<and> TreeIKNRJL lib km endpoints q0 poses qmin qmax = Inr (q1, k)"
    unfolding cast_def back_def kdl2user_def tn_def
    using TreeIKNRJL_returns by blast
qed

theorem ik_status_passthrough_witness:
  "2 < length (kdl_user_link_names example_kdl)
   \<and> ChainIkSolverPos_LMA example_library (target_chain example_kdl 2) chainIKLMA_L [20, 30]
        (pose_to_frame (S_to_double example_library) example_pose) [0, 0] = ([21, 31], - 1)
   \<and> chainIKLMA example_library example_kdl 2 [10, 20, 30] example_pose = Inr ([10, 21, 31], - 1)
   \<and> double_is_int (Finite (- 3) 0) (- 3)
   \<and> TreeIKNRJL example_library example_kdl [''link_a'', ''link_c''] [10, 20, 30]
        [example_pose, example_pose] [0, 1, 2] [50, 60, 70] = Inr ([0, 1, 2], - 3)"
proof -
  note t = ik_status_passthrough[of example_library example_kdl 2 "[10, 20, 30]" example_pose
      "[0, 1, 2]" "[50, 60, 70]" "[''link_a'', ''link_c'']" "[example_pose, example_pose]"]
  have n: "chain_getNrOfJoints (target_chain example_kdl 2) = 2"
    by code_simp
  have h1: "2 < length (kdl_user_link_names example_kdl)"
    by (simp add: example_kdl_def)
  have h2: "chain_joint_idx (user_joint_idx_mapping example_kdl) (target_chain example_kdl 2) []
              = Inr [1, 2]"
    by code_simp
  have h3: "gather_loop (S_to_double example_library) [10, 20, 30] [1, 2] 2 0 (replicate 2 0)
              = Inr [20, 30]"
    by code_simp
  have h4: "ChainIkSolverPos_LMA example_library (target_chain example_kdl 2) chainIKLMA_L [20, 30]
        (pose_to_frame (S_to_double example_library) example_pose) (replicate 2 0) = ([21, 31], - 1)"
    by (simp add: example_library_def)
  have h5: "length [21, 31 :: int] = 2"
    by simp
  have sc: "scatter_loop (double_to_S example_library) [21, 31] [1, 2] 2 0 [10, 20, 30]
              = Inr [10, 21, 31]"
    by code_simp
  from t have "\<forall>idx q_init q_sol s.
        2 < length (kdl_user_link_names example_kdl)
      \<and> chain_joint_idx (user_joint_idx_mapping example_kdl) (target_chain example_kdl 2) [] = Inr idx
      \<and> gather_loop (S_to_double example_library) [10, 20, 30] idx
           (chain_getNrOfJoints (target_chain example_kdl 2)) 0
           (replicate (chain_getNrOfJoints (target_chain example_kdl 2)) 0) = Inr q_init
      \<and> ChainIkSolverPos_LMA example_library (target_chain example_kdl 2) chainIKLMA_L q_init
           (pose_to_frame (S_to_double example_library) example_pose)
           (replicate (chain_getNrOfJoints (target_chain example_kdl 2)) 0) = (q_sol, s)
      \<and> length q_sol = chain_getNrOfJoints (target_chain example_kdl 2)
      \<longrightarrow> (\<exists>q1. scatter_loop (double_to_S example_library) q_sol idx
                    (chain_getNrOfJoints (target_chain example_kdl 2)) 0 [10, 20, 30] = Inr q1
               \<and> chainIKLMA example_library example_kdl 2 [10, 20, 30] example_pose = Inr (q1, s))"
    by (elim conjE) assumption
  with h1 h2 h3 h4 h5 have "\<exists>q1. scatter_loop (double_to_S example_library) [21, 31] [1, 2] 2 0
                [10, 20, 30] = Inr q1
      \<and> chainIKLMA example_library example_kdl 2 [10, 20, 30] example_pose = Inr (q1, - 1)"
    unfolding n by blast
  with sc have a: "chainIKLMA example_library example_kdl 2 [10, 20, 30] example_pose
      = Inr ([10, 21, 31], - 1)"
    by simp
  have tn: "getNrOfJoints (tree example_kdl) = 3"
    by code_simp
  have k1: "limits_loop (S_to_double example_library) [0, 1, 2] [50, 60, 70]
              (joint_mapping_kdl_2_user example_kdl) 3 0 (replicate 3 0, replicate 3 0)
            = Inr ([0, 1, 2], [50, 60, 70])"
    by code_simp
  obtain frames where k2: "frames_loop (S_to_double example_library) [''link_a'', ''link_c'']
              [example_pose, example_pose] 0 Map.empty = Inr frames"
    by (simp add: frames_loop.simps)
  have k3: "gather_loop (S_to_double example_library) [10, 20, 30]
              (joint_mapping_kdl_2_user example_kdl) 3 0 (replicate 3 0) = Inr [10, 20, 30]"
    by code_simp
  have k4: "TreeIkSolverPos_NR_JL example_library (tree example_kdl) [''link_a'', ''link_c'']
              [0, 1, 2] [50, 60, 70] [10, 20, 30] frames (replicate 3 0)
            = ([0, 1, 2], Finite (- 3) 0)"
    by (simp add: example_library_def)
  have k5: "length [0, 1, 2 :: int] = 3"
    by simp
  have k6: "double_is_int (Finite (- 3) 0) (- 3)" "- (2 ^ 31) \<le> (- 3 :: int)" "(- 3 :: int) < 2 ^ 31"
    by (simp_all add: double_is_int_def)
  have sc': "scatter_loop (double_to_S example_library) [0, 1, 2]
               (joint_mapping_kdl_2_user example_kdl) 3 0 [10, 20, 30] = Inr [0, 1, 2]"
    by code_simp
  from t have "\<forall>q_min q_max frames q_init q_sol retval k.
        limits_loop (S_to_double example_library) [0, 1, 2] [50, 60, 70]
          (joint_mapping_kdl_2_user example_kdl) (getNrOfJoints (tree example_kdl)) 0
          (replicate (getNrOfJoints (tree example_kdl)) 0,
           replicate (getNrOfJoints (tree example_kdl)) 0) = Inr (q_min, q_max)
      \<and> frames_loop (S_to_double example_library) [''link_a'', ''link_c'']
          [example_pose, example_pose] 0 Map.empty = Inr frames
      \<and> gather_loop (S_to_double example_library) [10, 20, 30]
          (joint_mapping_kdl_2_user example_kdl) (getNrOfJoints (tree example_kdl)) 0
          (replicate (getNrOfJoints (tree example_kdl)) 0) = Inr q_init
      \<and> TreeIkSolverPos_NR_JL example_library (tree example_kdl) [''link_a'', ''link_c'']
          q_min q_max q_init frames (replicate (getNrOfJoints (tree example_kdl)) 0)
          = (q_sol, retval)
      \<and> length q_sol = getNrOfJoints (tree example_kdl)
      \<and> double_is_int retval k \<and> - (2 ^ 31) \<le> k \<and> k < 2 ^ 31
      \<longrightarrow> (\<exists>q1. scatter_loop (double_to_S example_library) q_sol
                    (joint_mapping_kdl_2_user example_kdl) (getNrOfJoints (tree example_kdl)) 0
                    [10, 20, 30] = Inr q1
               \<and> TreeIKNRJL example_library example_kdl [''link_a'', ''link_c''] [10, 20, 30]
                    [example_pose, example_pose] [0, 1, 2] [50, 60, 70] = Inr (q1, k))"
    by (elim conjE) assumption
  with k1 k2 k3 k4 k5 k6 have "\<exists>q1. scatter_loop (double_to_S example_library) [0, 1, 2]
                (joint_mapping_kdl_2_user example_kdl) 3 0 [10, 20, 30] = Inr q1
      \<and> TreeIKNRJL example_library example_kdl [''link_a'', ''link_c''] [10, 20, 30]
           [example_pose, example_pose] [0, 1, 2] [50, 60, 70] = Inr (q1, - 3)"
    unfolding tn by blast
  with sc' have b: "TreeIKNRJL example_library example_kdl [''link_a'', ''link_c''] [10, 20, 30]
        [example_pose, example_pose] [0, 1, 2] [50, 60, 70] = Inr ([0, 1, 2], - 3)"
    by simp
  have h4': "ChainIkSolverPos_LMA example_library (target_chain example_kdl 2) chainIKLMA_L [20, 30]
        (pose_to_frame (S_to_double example_library) example_pose) [0, 0] = ([21, 31], - 1)"
    by (simp add: example_library_def)
  from h1 h4' a k6(1) b show ?thesis by simp
qed

text \<open>
  The claim as it was stated fails for \<^verbatim>\<open>TreeIKNRJL\<close>: when the tree solver returns the
  remaining distance 0.75, the function returns the status 0, which is not the value the
  solver returned.
\<close>

theorem ik_status_passthrough_counterexample:
  "snd (TreeIkSolverPos_NR_JL example_library_distance (tree example_kdl) [''link_a'', ''link_c'']
          [0, 1, 2] [50, 60, 70] [10, 20, 30]
          [''link_a'' \<mapsto> pose_to_frame (S_to_double example_library_distance) example_pose,
           ''link_c'' \<mapsto> pose_to_frame (S_to_double example_library_distance) example_pose]
          [0, 0, 0])
     = Finite 3 (- 2)
   \<and> TreeIKNRJL example_library_distance example_kdl [''link_a'', ''link_c''] [10, 20, 30]
        [example_pose, example_pose] [0, 1, 2] [50, 60, 70] = Inr ([0, 1, 2], 0)
   \<and> \<not> double_is_int (Finite 3 (- 2)) 0"
proof (intro conjI)
  show "snd (TreeIkSolverPos_NR_JL example_library_distance (tree example_kdl)
          [''link_a'', ''link_c''] [0, 1, 2] [50, 60, 70] [10, 20, 30]
          [''link_a'' \<mapsto> pose_to_frame (S_to_double example_library_distance) example_pose,
           ''link_c'' \<mapsto> pose_to_frame (S_to_double example_library_distance) example_pose]
          [0, 0, 0])
     = Finite 3 (- 2)"
    by (simp add: example_library_distance_def)
  show "TreeIKNRJL example_library_distance example_kdl [''link_a'', ''link_c''] [10, 20, 30]
        [example_pose, example_pose] [0, 1, 2] [50, 60, 70] = Inr ([0, 1, 2], 0)"
    by code_simp
  show "\<not> double_is_int (Finite 3 (- 2)) 0"
    by (simp add: double_is_int_def)
qed

section \<open>Properties of the validity checker\<close>

text \<open>
  Claim C2. \<^verbatim>\<open>isValid\<close> (and \<^verbatim>\<open>_isValid\<close>) answers that a state is valid exactly when,
  after \<^verbatim>\<open>setQposAll\<close> has written the state into the world, the world's \<^verbatim>\<open>collide\<close>
  reports no collision; \<^verbatim>\<open>clearance\<close> answers the world's \<^verbatim>\<open>distance\<close> after the same
  write. When \<^verbatim>\<open>setQposAll\<close> throws there is no answer.
\<close>

theorem validity_checker_oracle:
  "(\<forall>b w'. isValid world state2vector state_raw w = Inr (b, w') \<longleftrightarrow>
       setQposAll world (state2eigen state2vector state_raw) w = Inr w' \<and> b = (\<not> collide world w'))
   \<and> (\<forall>b w'. isValid_VectorX world state w = Inr (b, w') \<longleftrightarrow>
       setQposAll world state w = Inr w' \<and> b = (\<not> collide world w'))
   \<and> (\<forall>c w'. clearance world static_cast_double state2vector state_raw w = Inr (c, w') \<longleftrightarrow>
       setQposAll world (state2eigen state2vector state_raw) w = Inr w'
       \<and> c = static_cast_double (distance world w'))
   \<and> (\<forall>e. setQposAll world (state2eigen state2vector state_raw) w = Inl e \<longrightarrow>
         isValid world state2vector state_raw w = Inl e
       \<and> clearance world static_cast_double state2vector state_raw w = Inl e)
   \<and> state2eigen state2vector state_raw = state2vector state_raw"
  by (auto simp: isValid_def isValid_VectorX_def clearance_def state2eigen_def vector2eigen_def
      split: sum.splits)

theorem validity_checker_oracle_witness:
  "isValid example_world (\<lambda>s. s) [3] 0 = Inr (True, 3)
   \<and> isValid example_world (\<lambda>s. s) [6] 0 = Inr (False, 6)
   \<and> clearance example_world (\<lambda>d. d) (\<lambda>s. s) [6] 0 = Inr (- 1, 6)
   \<and> isValid example_world (\<lambda>s. s) [3, 4] 0 = Inl (RuntimeError ''wrong length'')"
proof -
  have s: "setQposAll example_world (state2eigen (\<lambda>s. s) [x]) 0 = Inr x" for x
    by (simp add: example_world_def state2eigen_def vector2eigen_def)
  have e: "setQposAll example_world (state2eigen (\<lambda>s. s) [3, 4]) 0 = Inl (RuntimeError ''wrong length'')"
    by (simp add: example_world_def state2eigen_def vector2eigen_def)
  have c: "\<not> collide example_world 3" "collide example_world 6" "distance example_world 6 = - 1"
    by (simp_all add: example_world_def)
  from validity_checker_oracle[of example_world "\<lambda>s. s" "[3]" 0 "[3]" "\<lambda>d. d"] s[of 3] c
  have 1: "isValid example_world (\<lambda>s. s) [3] 0 = Inr (True, 3)" by simp
  from validity_checker_oracle[of example_world "\<lambda>s. s" "[6]" 0 "[6]" "\<lambda>d. d"] s[of 6] c
  have 2: "isValid example_world (\<lambda>s. s) [6] 0 = Inr (False, 6)"
    and 3: "clearance example_world (\<lambda>d. d) (\<lambda>s. s) [6] 0 = Inr (- 1, 6)" by simp_all
  from validity_checker_oracle[of example_world "\<lambda>s. s" "[3, 4]" 0 "[3, 4]" "\<lambda>d. d"] e
  have 4: "isValid example_world (\<lambda>s. s) [3, 4] 0 = Inl (RuntimeError ''wrong length'')" by simp
  from 1 2 3 4 show ?thesis by simp
qed

section \<open>Properties of the distance queries\<close>

lemma min_result_mem: "min_result best rs \<in> set (best # rs)"
  by (induction rs arbitrary: best) auto

lemma min_result_le: "p \<in> set (best # rs) \<Longrightarrow> min_distance (min_result best rs) \<le> min_distance p"
proof (induction rs arbitrary: best p)
  case Nil
  then show ?case by simp
next
  case (Cons r rs)
  let ?b = "if min_distance r < min_distance best then r else best"
  have u: "min_result best (r # rs) = min_result ?b rs" by simp
  have b: "min_distance ?b \<le> min_distance best" "min_distance ?b \<le> min_distance r"
    by auto
  have hb: "min_distance (min_result ?b rs) \<le> min_distance ?b"
    by (rule Cons.IH) simp
  from Cons.prems consider "p = best" | "p = r" | "p \<in> set rs" by auto
  then show ?case
  proof cases
    case 1
    with hb b(1) show ?thesis unfolding u by (blast intro: order_trans)
  next
    case 2
    with hb b(2) show ?thesis unfolding u by (blast intro: order_trans)
  next
    case 3
    then have "p \<in> set (?b # rs)" by simp
    from Cons.IH[OF this] show ?thesis unfolding u .
  qed
qed

lemma min_result_Min:
  "min_distance (min_result best rs) = Min (min_distance ` set (best # rs))"
proof (rule Min_eqI[symmetric])
  show "finite (min_distance ` set (best # rs))" by simp
  show "min_distance (min_result best rs) \<in> min_distance ` set (best # rs)"
    using min_result_mem by (rule imageI)
  fix d assume "d \<in> min_distance ` set (best # rs)"
  then obtain p where "p \<in> set (best # rs)" "d = min_distance p" by blast
  with min_result_le[of p best rs] show "min_distance (min_result best rs) \<le> d" by simp
qed

lemma scope_distance_None: "scope_distance pairs = None \<longleftrightarrow> pairs = []"
  by (simp add: scope_distance_def split: list.splits)

lemma scope_distance_Some:
  "scope_distance pairs = Some r \<Longrightarrow>
   r \<in> set pairs \<and> (\<forall>p \<in> set pairs. min_distance r \<le> min_distance p)
   \<and> min_distance r = Min (min_distance ` set pairs)"
proof -
  assume "scope_distance pairs = Some r"
  then obtain x xs where p: "pairs = x # xs" and r: "r = min_result x xs"
    by (auto simp: scope_distance_def split: list.splits)
  have "r \<in> set pairs" unfolding p r by (rule min_result_mem)
  moreover have "\<forall>q \<in> set pairs. min_distance r \<le> min_distance q"
    unfolding p r using min_result_le by blast
  moreover have "min_distance r = Min (min_distance ` set pairs)"
    unfolding p r by (rule min_result_Min)
  ultimately show ?thesis by blast
qed

lemma scope_distance_min:
  "scope_distance pairs = Some r \<Longrightarrow>
   r \<in> set pairs \<and> (\<forall>p \<in> set pairs. min_distance r \<le> min_distance p)"
  by (drule scope_distance_Some) blast

lemma scope_distance_append:
  "map_option min_distance (scope_distance (xs @ ys)) =
     (case (scope_distance xs, scope_distance ys) of
        (None, None) \<Rightarrow> None
      | (Some a, None) \<Rightarrow> Some (min_distance a)
      | (None, Some b) \<Rightarrow> Some (min_distance b)
      | (Some a, Some b) \<Rightarrow> Some (min (min_distance a) (min_distance b)))"
proof (cases "xs = []")
  case True
  then have "scope_distance xs = None" by (simp add: scope_distance_None)
  with True show ?thesis
    by (cases "scope_distance ys") simp_all
next
  case xs: False
  then obtain a where a: "scope_distance xs = Some a"
    using scope_distance_None[of xs] by (cases "scope_distance xs") simp_all
  from xs obtain f where f: "scope_distance (xs @ ys) = Some f"
    using scope_distance_None[of "xs @ ys"] by (cases "scope_distance (xs @ ys)") simp_all
  from scope_distance_Some[OF a] have ma: "min_distance a = Min (min_distance ` set xs)"
    by blast
  from scope_distance_Some[OF f] have mf: "min_distance f = Min (min_distance ` set (xs @ ys))"
    by blast
  show ?thesis
  proof (cases "ys = []")
    case True
    then have "scope_distance ys = None" by (simp add: scope_distance_None)
    moreover from True have "min_distance f = min_distance a" using ma mf by simp
    ultimately show ?thesis using a f by simp
  next
    case ys: False
    then obtain b where b: "scope_distance ys = Some b"
      using scope_distance_None[of ys] by (cases "scope_distance ys") simp_all
    from scope_distance_Some[OF b] have mb: "min_distance b = Min (min_distance ` set ys)"
      by blast
    have "Min (min_distance ` set xs \<union> min_distance ` set ys)
            = min (Min (min_distance ` set xs)) (Min (min_distance ` set ys))"
      using xs ys by (intro Min_Un) simp_all
    then have "min_distance f = min (min_distance a) (min_distance b)"
      using ma mb mf by (simp add: image_Un)
    with a b f show ?thesis by simp
  qed
qed

text \<open>
  Claim C7. In every world state the distance of \<^verbatim>\<open>distanceFull\<close> is the minimum of the
  distances of \<^verbatim>\<open>distanceSelf\<close> and \<^verbatim>\<open>distanceOthers\<close>, and every one of the three
  queries returns a result of a pair of its scope whose distance is least among all
  pairs of the scope; a query has no result only when its scope has no pair.
\<close>

theorem distanceFull_minimum:
  fixes w :: "('a::linorder) distance_world"
  shows
  "map_option min_distance (distanceFull w) =
     (case (distanceSelf w, distanceOthers w) of
        (None, None) \<Rightarrow> None
      | (Some a, None) \<Rightarrow> Some (min_distance a)
      | (None, Some b) \<Rightarrow> Some (min_distance b)
      | (Some a, Some b) \<Rightarrow> Some (min (min_distance a) (min_distance b)))
   \<and> (\<forall>r. distanceFull w = Some r \<longrightarrow>
         r \<in> set (self_pairs w) \<union> set (others_pairs w)
         \<and> (\<forall>p \<in> set (self_pairs w) \<union> set (others_pairs w). min_distance r \<le> min_distance p))
   \<and> (\<forall>r. distanceSelf w = Some r \<longrightarrow>
         r \<in> set (self_pairs w) \<and> (\<forall>p \<in> set (self_pairs w). min_distance r \<le> min_distance p))
   \<and> (\<forall>r. distanceOthers w = Some r \<longrightarrow>
         r \<in> set (others_pairs w) \<and> (\<forall>p \<in> set (others_pairs w). min_distance r \<le> min_distance p))
   \<and> (distanceFull w = None \<longleftrightarrow> self_pairs w = [] \<and> others_pairs w = [])
   \<and> (distanceSelf w = None \<longleftrightarrow> self_pairs w = [])
   \<and> (distanceOthers w = None \<longleftrightarrow> others_pairs w = [])"
proof (intro conjI allI impI)
  show "map_option min_distance (distanceFull w) =
     (case (distanceSelf w, distanceOthers w) of
        (None, None) \<Rightarrow> None
      | (Some a, None) \<Rightarrow> Some (min_distance a)
      | (None, Some b) \<Rightarrow> Some (min_distance b)
      | (Some a, Some b) \<Rightarrow> Some (min (min_distance a) (min_distance b)))"
    unfolding distanceFull_def distanceSelf_def distanceOthers_def
    by (rule scope_distance_append)
next
  fix r assume "distanceFull w = Some r"
  then have "scope_distance (self_pairs w @ others_pairs w) = Some r"
    by (simp add: distanceFull_def)
  from scope_distance_min[OF this]
  show "r \<in> set (self_pairs w) \<union> set (others_pairs w)"
    "\<forall>p \<in> set (self_pairs w) \<union> set (others_pairs w). min_distance r \<le> min_distance p"
    by simp_all
next
  fix r assume "distanceSelf w = Some r"
  then have "scope_distance (self_pairs w) = Some r"
    by (simp add: distanceSelf_def)
  from scope_distance_min[OF this]
  show "r \<in> set (self_pairs w)" "\<forall>p \<in> set (self_pairs w). min_distance r \<le> min_distance p"
    by simp_all
next
  fix r assume "distanceOthers w = Some r"
  then have "scope_distance (others_pairs w) = Some r"
    by (simp add: distanceOthers_def)
  from scope_distance_min[OF this]
  show "r \<in> set (others_pairs w)" "\<forall>p \<in> set (others_pairs w). min_distance r \<le> min_distance p"
    by simp_all
next
  show "distanceFull w = None \<longleftrightarrow> self_pairs w = [] \<and> others_pairs w = []"
    by (simp add: distanceFull_def scope_distance_None)
  show "distanceSelf w = None \<longleftrightarrow> self_pairs w = []"
    by (simp add: distanceSelf_def scope_distance_None)
  show "distanceOthers w = None \<longleftrightarrow> others_pairs w = []"
    by (simp add: distanceOthers_def scope_distance_None)
qed

theorem distanceFull_minimum_witness:
  "map_option min_distance (distanceSelf example_distance_world) = Some (- 2)
   \<and> map_option min_distance (distanceOthers example_distance_world) = Some 1
   \<and> map_option min_distance (distanceFull example_distance_world) = Some (- 2)"
proof -
  have s: "map_option min_distance (distanceSelf example_distance_world) = Some (- 2)"
    by (simp add: distanceSelf_def scope_distance_def example_distance_world_def example_result_def)
  have o: "map_option min_distance (distanceOthers example_distance_world) = Some 1"
    by (simp add: distanceOthers_def scope_distance_def example_distance_world_def example_result_def)
  from s o obtain a b where "distanceSelf example_distance_world = Some a" "min_distance a = - 2"
    "distanceOthers example_distance_world = Some b" "min_distance b = 1"
    by auto
  with distanceFull_minimum[of example_distance_world]
  have "map_option min_distance (distanceFull example_distance_world) = Some (- 2)"
    by simp
  with s o show ?thesis by blast
qed

end
